theory Spec2Isabelle
  imports Complex_Main
begin

section \<open>Python values shared by the services\<close>

text \<open>
  Exceptions are values: the class of the exception and its argument. A function of
  the source that can raise returns \<open>error + 'a\<close>, with \<open>Inl\<close> for the raised
  exception. \<open>str_of_error\<close> is \<open>str(e)\<close>: the argument, and for a \<open>KeyError\<close>
  the key in single quotes.
\<close>

datatype error =
    ValueError string
  | RuntimeError string
  | IndexError string
  | ZeroDivisionError string
  | KeyError string
  | ValidationError string
  | OtherError string

fun str_of_error :: "error \<Rightarrow> string" where
  "str_of_error (ValueError m) = m"
| "str_of_error (RuntimeError m) = m"
| "str_of_error (IndexError m) = m"
| "str_of_error (ZeroDivisionError m) = m"
| "str_of_error (KeyError m) = [CHR 0x27] @ m @ [CHR 0x27]"
| "str_of_error (ValidationError m) = m"
| "str_of_error (OtherError m) = m"

text \<open>
  Strings are lists of characters with code points below 256. \<open>is_space\<close> is Python's
  \<open>str.isspace\<close> on that range, which is also what \<open>\s\<close> matches in a \<open>str\<close>
  pattern of the \<open>re\<close> module.
\<close>

definition is_space :: "char \<Rightarrow> bool" where
  "is_space c = (of_char c \<in> {9, 10, 11, 12, 13, 28, 29, 30, 31, 32, 133, 160 :: nat})"

definition newline :: char where
  "newline = CHR 0x0A"

text \<open>\<open>s.strip()\<close>\<close>

definition strip :: "string \<Rightarrow> string" where
  "strip s = rev (dropWhile is_space (rev (dropWhile is_space s)))"

text \<open>\<open>s[i:j]\<close> for integers \<open>i\<close>, \<open>j\<close>: negative bounds count from the end, and both
  are clamped to the string.\<close>

definition py_slice :: "'a list \<Rightarrow> int \<Rightarrow> int \<Rightarrow> 'a list" where
  "py_slice xs i j =
     (let n = int (length xs);
          i' = (if i < 0 then max (i + n) 0 else min i n);
          j' = (if j < 0 then max (j + n) 0 else min j n)
      in take (nat (j' - i')) (drop (nat i') xs))"

text \<open>\<open>sep in s\<close>\<close>

fun str_contains :: "string \<Rightarrow> string \<Rightarrow> bool" where
  "str_contains sep [] = (sep = [])"
| "str_contains sep (c # cs) = (take (length sep) (c # cs) = sep \<or> str_contains sep cs)"

text \<open>\<open>s.split(sep)\<close> for a non-empty \<open>sep\<close>: the pieces between the non-overlapping
  occurrences of \<open>sep\<close>, found from the left. The first argument collects the current
  piece in reverse.\<close>

function split_at :: "string \<Rightarrow> string \<Rightarrow> string \<Rightarrow> string list" where
  "split_at sep acc [] = [rev acc]"
| "split_at sep acc (c # cs) =
     (if sep \<noteq> [] \<and> take (length sep) (c # cs) = sep
      then rev acc # split_at sep [] (drop (length sep) (c # cs))
      else split_at sep (c # acc) cs)"
  by pat_completeness auto
termination
  by (relation "measure (\<lambda>(sep, acc, s). length s)") auto

definition py_split :: "string \<Rightarrow> string \<Rightarrow> error + string list" where
  "py_split s sep =
     (if sep = [] then Inl (ValueError ''empty separator'') else Inr (split_at sep [] s))"

section \<open>Chunker (file service, \<open>chunking/chunker.py\<close>)\<close>

type_synonym metadata = "(string \<times> string) list"

text \<open>The dictionary that \<open>_create_chunk\<close> returns.\<close>

record chunk =
  ctext :: string
  cindex :: int
  start_position :: int
  end_position :: int
  cmetadata :: metadata

text \<open>\<open>metadata or {}\<close>\<close>

definition or_empty :: "metadata option \<Rightarrow> metadata" where
  "or_empty m = (case m of None \<Rightarrow> [] | Some d \<Rightarrow> d)"

definition create_chunk :: "string \<Rightarrow> int \<Rightarrow> int \<Rightarrow> int \<Rightarrow> metadata option \<Rightarrow> chunk" where
  "create_chunk t i start_pos end_pos md =
     \<lparr>ctext = strip t, cindex = i, start_position = start_pos, end_position = end_pos,
      cmetadata = or_empty md\<rparr>"

text \<open>\<open>re.sub(r"\s+", " ", text)\<close>: every maximal run of whitespace becomes one space.\<close>

function collapse_ws :: "string \<Rightarrow> string" where
  "collapse_ws [] = []"
| "collapse_ws (c # cs) =
     (if is_space c then CHR '' '' # collapse_ws (dropWhile is_space cs)
      else c # collapse_ws cs)"
  by pat_completeness auto
termination
  by (relation "measure length") (auto simp: le_imp_less_Suc length_dropWhile_le)

definition clean_text :: "string \<Rightarrow> string" where
  "clean_text t = strip (collapse_ws t)"

subsection \<open>FixedSizeChunker\<close>

text \<open>
  The \<open>while start < len(text)\<close> loop of \<open>FixedSizeChunker.chunk_text\<close>. The loop may
  run forever, so it is a partial function: \<open>None\<close> is "does not return".
\<close>

partial_function (option) FixedSizeChunker_loop ::
  "int \<Rightarrow> int \<Rightarrow> metadata option \<Rightarrow> string \<Rightarrow> int \<Rightarrow> int \<Rightarrow> chunk list \<Rightarrow> chunk list option"
where
  "FixedSizeChunker_loop chunk_size overlap md t start chunk_index chunks =
     (if start < int (length t) then
        (let e = min (start + chunk_size) (int (length t));
             chunks' = chunks @ [create_chunk (py_slice t start e) chunk_index start e md];
             start' = e - overlap;
             chunk_index' = chunk_index + 1
         in if start' \<ge> e then Some chunks'
            else FixedSizeChunker_loop chunk_size overlap md t start' chunk_index' chunks')
      else Some chunks)"

declare FixedSizeChunker_loop.simps [code]

definition FixedSizeChunker_chunk_text ::
  "int \<Rightarrow> int \<Rightarrow> string \<Rightarrow> metadata option \<Rightarrow> chunk list option"
where
  "FixedSizeChunker_chunk_text chunk_size overlap text0 md =
     (let t = clean_text text0
      in if int (length t) \<le> chunk_size
         then Some [create_chunk t 0 0 (int (length t)) md]
         else FixedSizeChunker_loop chunk_size overlap md t 0 0 [])"

subsection \<open>RecursiveChunker\<close>

definition separators :: "string list" where
  "separators =
     [[newline, newline], [newline], ''. '', ''! '', ''? '', ''; '', '', '', '' '', '''']"

text \<open>The \<open>for i, part in enumerate(parts)\<close> loop of \<open>_split_by_separator\<close>; the state
  is \<open>chunks\<close>, \<open>current_chunk\<close> and \<open>current_start\<close>. A part is the last one exactly
  when no part follows it.\<close>

fun split_by_separator_loop ::
  "int \<Rightarrow> int \<Rightarrow> string \<Rightarrow> metadata option \<Rightarrow> string list \<Rightarrow> chunk list \<Rightarrow> string \<Rightarrow> int
   \<Rightarrow> chunk list \<times> string \<times> int"
where
  "split_by_separator_loop chunk_size overlap sep md [] chunks cur cur_start =
     (chunks, cur, cur_start)"
| "split_by_separator_loop chunk_size overlap sep md (part # rest) chunks cur cur_start =
     (let part_with_sep = (if rest \<noteq> [] then part @ sep else part)
      in if int (length cur) + int (length part_with_sep) \<le> chunk_size
         then split_by_separator_loop chunk_size overlap sep md rest chunks
                (cur @ part_with_sep) cur_start
         else
           (let chunks' =
                  (if strip cur \<noteq> []
                   then chunks @ [create_chunk cur (int (length chunks)) cur_start
                                    (cur_start + int (length cur)) md]
                   else chunks)
            in split_by_separator_loop chunk_size overlap sep md rest chunks'
                 part_with_sep (cur_start + int (length cur) - overlap)))"

definition split_by_separator ::
  "int \<Rightarrow> int \<Rightarrow> string \<Rightarrow> string \<Rightarrow> int \<Rightarrow> metadata option \<Rightarrow> error + chunk list"
where
  "split_by_separator chunk_size overlap t sep start_offset md =
     (case py_split t sep of
        Inl e \<Rightarrow> Inl e
      | Inr parts \<Rightarrow>
          (case split_by_separator_loop chunk_size overlap sep md parts [] [] start_offset of
             (chunks, cur, cur_start) \<Rightarrow>
               Inr (if strip cur \<noteq> []
                    then chunks @ [create_chunk cur (int (length chunks)) cur_start
                                     (cur_start + int (length cur)) md]
                    else chunks)))"

text \<open>The loop of \<open>_fallback_split\<close>, with the same shape as the fixed-size loop.\<close>

partial_function (option) fallback_split_loop ::
  "int \<Rightarrow> int \<Rightarrow> metadata option \<Rightarrow> string \<Rightarrow> int \<Rightarrow> int \<Rightarrow> chunk list \<Rightarrow> chunk list option"
where
  "fallback_split_loop chunk_size overlap md t start_offset start chunks =
     (if start < int (length t) then
        (let e = min (start + chunk_size) (int (length t));
             chunks' = chunks @ [create_chunk (py_slice t start e) (int (length chunks))
                                   (start_offset + start) (start_offset + e) md];
             start' = e - overlap
         in if start' \<ge> e then Some chunks'
            else fallback_split_loop chunk_size overlap md t start_offset start' chunks')
      else Some chunks)"

declare fallback_split_loop.simps [code]

definition fallback_split ::
  "int \<Rightarrow> int \<Rightarrow> string \<Rightarrow> int \<Rightarrow> metadata option \<Rightarrow> chunk list option"
where
  "fallback_split chunk_size overlap t start_offset md =
     fallback_split_loop chunk_size overlap md t start_offset 0 []"

text \<open>The \<open>for separator in self.separators\<close> loop of \<open>_recursive_split\<close>: the first
  separator that occurs in the text and yields a chunk decides; an exception of the
  split leaves the loop; after the last separator the fallback runs.\<close>

fun try_separators ::
  "int \<Rightarrow> int \<Rightarrow> string \<Rightarrow> int \<Rightarrow> metadata option \<Rightarrow> string list
   \<Rightarrow> (error + chunk list) option"
where
  "try_separators chunk_size overlap t start_offset md [] =
     map_option Inr (fallback_split chunk_size overlap t start_offset md)"
| "try_separators chunk_size overlap t start_offset md (sep # seps) =
     (if str_contains sep t then
        (case split_by_separator chunk_size overlap t sep start_offset md of
           Inl e \<Rightarrow> Some (Inl e)
         | Inr chunks \<Rightarrow>
             if chunks \<noteq> [] then Some (Inr chunks)
             else try_separators chunk_size overlap t start_offset md seps)
      else try_separators chunk_size overlap t start_offset md seps)"

definition recursive_split ::
  "int \<Rightarrow> int \<Rightarrow> string \<Rightarrow> int \<Rightarrow> metadata option \<Rightarrow> (error + chunk list) option"
where
  "recursive_split chunk_size overlap t start_offset md =
     (if int (length t) \<le> chunk_size
      then Some (Inr [create_chunk t 0 start_offset (start_offset + int (length t)) md])
      else try_separators chunk_size overlap t start_offset md separators)"

definition RecursiveChunker_chunk_text ::
  "int \<Rightarrow> int \<Rightarrow> string \<Rightarrow> metadata option \<Rightarrow> (error + chunk list) option"
where
  "RecursiveChunker_chunk_text chunk_size overlap text0 md =
     recursive_split chunk_size overlap (clean_text text0) 0 (Some (or_empty md))"

subsection \<open>ParagraphChunker\<close>

text \<open>
  \<open>re.split(r"\n\s*\n", text)\<close>. A match starts at a newline and ends with the last
  newline of the whitespace run that follows it (\<open>\s*\<close> is greedy); without a newline in
  that run there is no match at this position. The first argument collects the current
  piece in reverse.
\<close>

definition after_last_newline :: "string \<Rightarrow> nat" where
  "after_last_newline run = length (dropWhile (\<lambda>c. c \<noteq> newline) (rev run))"

function split_paragraphs :: "string \<Rightarrow> string \<Rightarrow> string list" where
  "split_paragraphs acc [] = [rev acc]"
| "split_paragraphs acc (c # cs) =
     (if c = newline \<and> newline \<in> set (takeWhile is_space cs)
      then rev acc # split_paragraphs [] (drop (after_last_newline (takeWhile is_space cs)) cs)
      else split_paragraphs (c # acc) cs)"
  by pat_completeness auto
termination
  by (relation "measure (\<lambda>(acc, s). length s)") auto

text \<open>The \<open>for paragraph in paragraphs\<close> loop; the state is \<open>chunks\<close>,
  \<open>current_chunk\<close> and \<open>current_start\<close>.\<close>

fun paragraph_loop ::
  "int \<Rightarrow> metadata option \<Rightarrow> string list \<Rightarrow> chunk list \<Rightarrow> string \<Rightarrow> int
   \<Rightarrow> chunk list \<times> string \<times> int"
where
  "paragraph_loop chunk_size md [] chunks cur cur_start = (chunks, cur, cur_start)"
| "paragraph_loop chunk_size md (p # ps) chunks cur cur_start =
     (let paragraph = strip p
      in if paragraph = [] then paragraph_loop chunk_size md ps chunks cur cur_start
         else if int (length cur) + int (length paragraph) + 2 > chunk_size \<and> cur \<noteq> []
         then paragraph_loop chunk_size md ps
                (chunks @ [create_chunk cur (int (length chunks)) cur_start
                             (cur_start + int (length cur)) md])
                paragraph (cur_start + int (length cur))
         else paragraph_loop chunk_size md ps chunks
                (if cur \<noteq> [] then cur @ [newline, newline] @ paragraph else paragraph)
                cur_start)"

definition ParagraphChunker_chunk_text :: "int \<Rightarrow> string \<Rightarrow> metadata option \<Rightarrow> chunk list" where
  "ParagraphChunker_chunk_text chunk_size text0 md =
     (case paragraph_loop chunk_size md (split_paragraphs [] (clean_text text0)) [] [] 0 of
        (chunks, cur, cur_start) \<Rightarrow>
          if strip cur \<noteq> []
          then chunks @ [create_chunk cur (int (length chunks)) cur_start
                           (cur_start + int (length cur)) md]
          else chunks)"

subsection \<open>SemanticChunker and ChunkingService\<close>

datatype ChunkingStrategy = FIXED | RECURSIVE | SEMANTIC | PARAGRAPH

definition SemanticChunker_chunk_text ::
  "int \<Rightarrow> int \<Rightarrow> string \<Rightarrow> metadata option \<Rightarrow> (error + chunk list) option"
where
  "SemanticChunker_chunk_text chunk_size overlap text0 md =
     RecursiveChunker_chunk_text chunk_size overlap text0 md"

text \<open>\<open>for i, chunk in enumerate(chunks): chunk["index"] = i\<close>\<close>

definition reindex :: "chunk list \<Rightarrow> chunk list" where
  "reindex chunks = map (\<lambda>(i, c). c\<lparr>cindex := int i\<rparr>) (enumerate 0 chunks)"

text \<open>\<open>ChunkingService.chunk_text\<close>: \<open>None\<close> when the chunker does not return,
  \<open>Some (Inl e)\<close> when it raises \<open>e\<close>.\<close>

definition ChunkingService_chunk_text ::
  "string \<Rightarrow> ChunkingStrategy \<Rightarrow> int \<Rightarrow> int \<Rightarrow> metadata option \<Rightarrow> (error + chunk list) option"
where
  "ChunkingService_chunk_text text0 strategy chunk_size overlap md =
     map_option (map_sum id reindex)
       (case strategy of
          FIXED \<Rightarrow> map_option Inr (FixedSizeChunker_chunk_text chunk_size overlap text0 md)
        | RECURSIVE \<Rightarrow> RecursiveChunker_chunk_text chunk_size overlap text0 md
        | SEMANTIC \<Rightarrow> SemanticChunker_chunk_text chunk_size overlap text0 md
        | PARAGRAPH \<Rightarrow> Some (Inr (ParagraphChunker_chunk_text chunk_size text0 md)))"

section \<open>Retrieval and fusion (chat service, \<open>crud/rag.py\<close>)\<close>

text \<open>
  A UUID is its canonical string, so \<open>str(chunk.chunk_id)\<close> is the identity. Python
  floats (similarity scores, \<open>rrf_k\<close>, fused scores) are idealised as exact rationals.
\<close>

type_synonym uuid = string

record RetrievedChunk =
  chunk_id :: uuid
  document_id :: uuid
  collection_id :: uuid
  content :: string
  similarity_score :: rat
  chunk_metadata :: metadata
  rank :: int

record MergeMetadata =
  mm_rrf_k :: rat
  collections_searched :: nat
  total_chunks_available :: nat

record ContextMergeResult =
  merged_context :: string
  selected_chunks :: "RetrievedChunk list"
  total_tokens :: int
  merge_strategy :: string
  merge_metadata :: MergeMetadata

subsection \<open>Dictionaries in insertion order\<close>

text \<open>
  A Python \<open>dict\<close> keeps its keys in insertion order, and the fusion iterates over its
  dictionaries, so they are association lists. \<open>dict_upd k f d\<close> stores \<open>f None\<close>
  under a new key \<open>k\<close> at the end, and replaces the value \<open>v\<close> of an existing key by
  \<open>f (Some v)\<close> in place.
\<close>

fun dict_upd :: "'k \<Rightarrow> ('v option \<Rightarrow> 'v) \<Rightarrow> ('k \<times> 'v) list \<Rightarrow> ('k \<times> 'v) list" where
  "dict_upd k f [] = [(k, f None)]"
| "dict_upd k f ((k', v) # rest) =
     (if k' = k then (k', f (Some v)) # rest else (k', v) # dict_upd k f rest)"

text \<open>A loop whose body can raise: the first exception leaves the loop.\<close>

fun fold_err :: "('s \<Rightarrow> 'a \<Rightarrow> error + 's) \<Rightarrow> 'a list \<Rightarrow> 's \<Rightarrow> error + 's" where
  "fold_err f [] s = Inr s"
| "fold_err f (x # xs) s = (case f s x of Inl e \<Rightarrow> Inl e | Inr s' \<Rightarrow> fold_err f xs s')"

text \<open>\<open>sorted(xs, key=f, reverse=True)\<close>: descending and stable.\<close>

definition sorted_desc :: "('a \<Rightarrow> rat) \<Rightarrow> 'a list \<Rightarrow> 'a list" where
  "sorted_desc f xs = sort_key (\<lambda>x. - f x) xs"

subsection \<open>\<open>RAGService.merge_contexts\<close>\<close>

text \<open>\<open>collection_chunks\<close>: the chunks of each collection, in the order of arrival.\<close>

definition group_step ::
  "(uuid \<times> RetrievedChunk list) list \<Rightarrow> RetrievedChunk \<Rightarrow> (uuid \<times> RetrievedChunk list) list"
where
  "group_step d c =
     dict_upd (collection_id c) (\<lambda>v. (case v of None \<Rightarrow> [] | Some cs \<Rightarrow> cs) @ [c]) d"

definition group_by_collection :: "RetrievedChunk list \<Rightarrow> (uuid \<times> RetrievedChunk list) list" where
  "group_by_collection chunks = foldl group_step [] chunks"

text \<open>
  The body of \<open>for rank, chunk in enumerate(sorted_chunks, 1)\<close>: the entry of the
  chunk id is created with the first chunk seen under it, and \<open>1.0 / (rrf_k + rank)\<close>
  is added to its score. The float division raises when \<open>rrf_k + rank\<close> is zero.
\<close>

definition rrf_step ::
  "rat \<Rightarrow> (uuid \<times> RetrievedChunk \<times> rat) list \<Rightarrow> nat \<times> RetrievedChunk
   \<Rightarrow> error + (uuid \<times> RetrievedChunk \<times> rat) list"
where
  "rrf_step rrf_k scores rc =
     (case rc of (rnk, c) \<Rightarrow>
        if rrf_k + of_nat rnk = 0 then Inl (ZeroDivisionError ''float division by zero'')
        else Inr (dict_upd (chunk_id c)
                    (\<lambda>v. case v of None \<Rightarrow> (c, 0 + 1 / (rrf_k + of_nat rnk))
                                  | Some (c0, sc) \<Rightarrow> (c0, sc + 1 / (rrf_k + of_nat rnk)))
                    scores))"

text \<open>The chunks of one collection with their ranks: sorted by descending similarity,
  numbered from 1.\<close>

definition ranked :: "RetrievedChunk list \<Rightarrow> (nat \<times> RetrievedChunk) list" where
  "ranked cs = enumerate 1 (sorted_desc similarity_score cs)"

definition rrf_collection ::
  "rat \<Rightarrow> (uuid \<times> RetrievedChunk \<times> rat) list \<Rightarrow> uuid \<times> RetrievedChunk list
   \<Rightarrow> error + (uuid \<times> RetrievedChunk \<times> rat) list"
where
  "rrf_collection rrf_k scores g = fold_err (rrf_step rrf_k) (ranked (snd g)) scores"

definition rrf_scores ::
  "rat \<Rightarrow> RetrievedChunk list \<Rightarrow> error + (uuid \<times> RetrievedChunk \<times> rat) list"
where
  "rrf_scores rrf_k chunks = fold_err (rrf_collection rrf_k) (group_by_collection chunks) []"

text \<open>The selection loop; the state is \<open>selected_chunks\<close> and \<open>total_tokens\<close>, and
  \<open>break\<close> returns it.\<close>

definition chunk_tokens :: "RetrievedChunk \<Rightarrow> int" where
  "chunk_tokens c = int (length (content c)) div 4"

fun select_chunks ::
  "int \<Rightarrow> RetrievedChunk list \<Rightarrow> RetrievedChunk list \<Rightarrow> int \<Rightarrow> RetrievedChunk list \<times> int"
where
  "select_chunks max_tokens [] selected tot = (selected, tot)"
| "select_chunks max_tokens (c # cs) selected tot =
     (if tot + chunk_tokens c \<le> max_tokens
      then select_chunks max_tokens cs (selected @ [c]) (tot + chunk_tokens c)
      else (selected, tot))"

text \<open>\<open>str(i)\<close> for a natural number, and \<open>sep.join(parts)\<close>.\<close>

fun str_of_nat :: "nat \<Rightarrow> string" where
  "str_of_nat n =
     (if n < 10 then [char_of (48 + n)] else str_of_nat (n div 10) @ [char_of (48 + n mod 10)])"

fun join :: "string \<Rightarrow> string list \<Rightarrow> string" where
  "join sep [] = []"
| "join sep [p] = p"
| "join sep (p # q # ps) = p @ sep @ join sep (q # ps)"

definition build_context :: "RetrievedChunk list \<Rightarrow> string" where
  "build_context selected =
     join [newline, newline]
       (map (\<lambda>(i, c). ''[Source '' @ str_of_nat i @ ''] '' @ content c) (enumerate 1 selected))"

text \<open>The candidates in the order of the selection loop: the values of \<open>rrf_scores\<close>
  sorted by descending fused score.\<close>

definition fused_ranking :: "rat \<Rightarrow> RetrievedChunk list \<Rightarrow> error + (RetrievedChunk \<times> rat) list" where
  "fused_ranking rrf_k chunks =
     (case rrf_scores rrf_k chunks of
        Inl e \<Rightarrow> Inl e
      | Inr scores \<Rightarrow> Inr (sorted_desc snd (map snd scores)))"

definition merge_contexts ::
  "rat \<Rightarrow> RetrievedChunk list \<Rightarrow> string \<Rightarrow> int \<Rightarrow> error + ContextMergeResult"
where
  "merge_contexts rrf_k chunks query max_tokens =
     (case fused_ranking rrf_k chunks of
        Inl e \<Rightarrow> Inl e
      | Inr sorted_chunks \<Rightarrow>
          (case select_chunks max_tokens (map fst sorted_chunks) [] 0 of
             (selected, tot) \<Rightarrow>
               Inr \<lparr>merged_context = build_context selected,
                    selected_chunks = selected,
                    total_tokens = tot,
                    merge_strategy = ''enhanced_rrf'',
                    merge_metadata =
                      \<lparr>mm_rrf_k = rrf_k,
                       collections_searched = length (group_by_collection chunks),
                       total_chunks_available = length chunks\<rparr>\<rparr>))"

subsection \<open>\<open>RAGService.vector_search\<close>\<close>

text \<open>
  A hit of the vector engine, as far as the conversion reads it: the score, and the
  payload entries \<open>chunk_id\<close>, \<open>document_id\<close>, \<open>chunk_text\<close> and
  \<open>metadata\<close>. \<open>None\<close> is a missing key. For the two identifiers the entry is
  the outcome of \<open>UUID(...)\<close> on the stored string.
\<close>

record ScoredPoint =
  sp_score :: rat
  payload_chunk_id :: "(error + uuid) option"
  payload_document_id :: "(error + uuid) option"
  payload_chunk_text :: "string option"
  payload_metadata :: "metadata option"

record VectorSearchRequest =
  query_embedding :: "rat list"
  vs_collection_ids :: "uuid list"
  vs_top_k :: int
  score_threshold :: rat
  filters :: "(string \<times> string) list"

record VectorSearchResponse =
  vs_chunks :: "RetrievedChunk list"
  total_found :: nat

text \<open>\<open>qdrant_client.search\<close>: collection name, query vector, limit, score
  threshold and filter (\<open>None\<close> without filters) to the hits, or an exception.\<close>

type_synonym qdrant_client =
  "string \<Rightarrow> rat list \<Rightarrow> int \<Rightarrow> rat \<Rightarrow> (string \<times> string) list option
   \<Rightarrow> error + ScoredPoint list"

text \<open>The construction of one \<open>RetrievedChunk\<close>: the payload lookups in the order of
  the keyword arguments, then the validation of \<open>similarity_score\<close> in \<open>[0, 1]\<close>.\<close>

definition to_retrieved_chunk :: "uuid \<Rightarrow> int \<Rightarrow> ScoredPoint \<Rightarrow> error + RetrievedChunk" where
  "to_retrieved_chunk cid rnk r =
     (case payload_chunk_id r of
        None \<Rightarrow> Inl (KeyError ''chunk_id'')
      | Some (Inl e) \<Rightarrow> Inl e
      | Some (Inr chunk_uuid) \<Rightarrow>
          (case payload_document_id r of
             None \<Rightarrow> Inl (KeyError ''document_id'')
           | Some (Inl e) \<Rightarrow> Inl e
           | Some (Inr document_uuid) \<Rightarrow>
               (case payload_chunk_text r of
                  None \<Rightarrow> Inl (KeyError ''chunk_text'')
                | Some t \<Rightarrow>
                    if 0 \<le> sp_score r \<and> sp_score r \<le> 1
                    then Inr \<lparr>chunk_id = chunk_uuid, document_id = document_uuid,
                              collection_id = cid, content = t,
                              similarity_score = sp_score r,
                              chunk_metadata = or_empty (payload_metadata r),
                              rank = rnk\<rparr>
                    else Inl (ValidationError ''similarity_score''))))"

text \<open>\<open>for i, result in enumerate(search_results)\<close>, appending to \<open>all_chunks\<close>.\<close>

fun convert_results ::
  "uuid \<Rightarrow> nat \<Rightarrow> ScoredPoint list \<Rightarrow> RetrievedChunk list \<Rightarrow> error + RetrievedChunk list"
where
  "convert_results cid i [] all_chunks = Inr all_chunks"
| "convert_results cid i (r # rs) all_chunks =
     (case to_retrieved_chunk cid (int i + 1) r of
        Inl e \<Rightarrow> Inl e
      | Inr c \<Rightarrow> convert_results cid (Suc i) rs (all_chunks @ [c]))"

definition search_filter :: "VectorSearchRequest \<Rightarrow> (string \<times> string) list option" where
  "search_filter request = (if filters request = [] then None else Some (filters request))"

text \<open>\<open>for collection_id in request.collection_ids\<close>: the whole loop stands in one
  \<open>try\<close> whose handler logs and re-raises, so an exception of any search leaves it.\<close>

fun search_collections ::
  "qdrant_client \<Rightarrow> VectorSearchRequest \<Rightarrow> uuid list \<Rightarrow> RetrievedChunk list
   \<Rightarrow> error + RetrievedChunk list"
where
  "search_collections client request [] all_chunks = Inr all_chunks"
| "search_collections client request (cid # cids) all_chunks =
     (case client (''knowledge_collection_'' @ cid) (query_embedding request)
             (vs_top_k request) (score_threshold request) (search_filter request) of
        Inl e \<Rightarrow> Inl e
      | Inr search_results \<Rightarrow>
          (case convert_results cid 0 search_results all_chunks of
             Inl e \<Rightarrow> Inl e
           | Inr all_chunks' \<Rightarrow> search_collections client request cids all_chunks'))"

definition vector_search :: "qdrant_client \<Rightarrow> VectorSearchRequest \<Rightarrow> error + VectorSearchResponse" where
  "vector_search client request =
     (case search_collections client request (vs_collection_ids request) [] of
        Inl e \<Rightarrow> Inl e
      | Inr all_chunks \<Rightarrow> Inr \<lparr>vs_chunks = all_chunks, total_found = length all_chunks\<rparr>)"

subsection \<open>Source attribution and prompt\<close>

record SourceAttribution =
  sa_document_id :: uuid
  sa_chunk_id :: uuid
  sa_collection_id :: uuid
  filename :: string
  chunk_text :: string
  relevance_score :: rat
  chunk_sequence :: int
  sa_metadata :: metadata

definition source_of :: "RetrievedChunk \<Rightarrow> SourceAttribution" where
  "source_of c =
     \<lparr>sa_document_id = document_id c, sa_chunk_id = chunk_id c,
      sa_collection_id = collection_id c,
      filename = (case map_of (chunk_metadata c) ''filename'' of
                    None \<Rightarrow> ''Unknown'' | Some f \<Rightarrow> f),
      chunk_text = (if length (content c) > 200 then take 200 (content c) @ ''...''
                    else content c),
      relevance_score = similarity_score c,
      chunk_sequence = rank c,
      sa_metadata = chunk_metadata c\<rparr>"

definition extract_source_attribution :: "RetrievedChunk list \<Rightarrow> SourceAttribution list" where
  "extract_source_attribution chunks = map source_of chunks"

definition build_prompt :: "string \<Rightarrow> string \<Rightarrow> string" where
  "build_prompt query context =
     ''Based on the following context, please answer the user's question. If the context doesn't contain enough information to answer the question, say so clearly.''
     @ [newline, newline] @ ''Context:'' @ [newline] @ context
     @ [newline, newline] @ ''Question: '' @ query
     @ [newline, newline]
     @ ''Please provide a comprehensive answer based on the context above, and cite the relevant sources using [Source X] notation.''"

subsection \<open>\<open>RAGService.process_streaming_rag_request\<close>\<close>

text \<open>
  The services the generator calls. \<open>embeddings_create text model\<close> is the embedding
  of the first item of the response, or the exception of the call.
  \<open>chat_stream model prompt\<close> is the exception of opening the completion stream, or
  the chunks the stream delivers (each the \<open>delta.content\<close> of its choices) and the
  exception that ends it, if one does. The stream is finite.
\<close>

record services =
  embeddings_create :: "string \<Rightarrow> string \<Rightarrow> error + rat list"
  qdrant_search :: qdrant_client
  chat_stream :: "string \<Rightarrow> string \<Rightarrow> error + (string option list list \<times> error option)"

record settings =
  cfg_rrf_k :: rat
  cfg_max_context_tokens :: int
  cfg_default_model :: string

record RAGRequest =
  rq_query :: string
  rq_collection_ids :: "uuid list"
  rq_top_k :: int

definition generate_embedding :: "services \<Rightarrow> string \<Rightarrow> string \<Rightarrow> error + rat list" where
  "generate_embedding sv t model = embeddings_create sv t model"

text \<open>
  The body of \<open>async for chunk in stream\<close>: \<open>chunk.choices[0]\<close> raises on an empty
  list of choices; a content that is \<open>None\<close> or empty is skipped. The result is what
  was yielded and the exception that ended the iteration, if any.
\<close>

fun stream_items :: "string option list list \<Rightarrow> error option \<Rightarrow> string list \<times> error option" where
  "stream_items [] fin = ([], fin)"
| "stream_items (choices # rest) fin =
     (case choices of
        [] \<Rightarrow> ([], Some (IndexError ''list index out of range''))
      | d # _ \<Rightarrow>
          (case stream_items rest fin of
             (ys, e) \<Rightarrow>
               (case d of
                  None \<Rightarrow> (ys, e)
                | Some t \<Rightarrow> if t \<noteq> [] then (t # ys, e) else (ys, e))))"

definition stream_llm_response :: "services \<Rightarrow> string \<Rightarrow> string \<Rightarrow> string list \<times> error option" where
  "stream_llm_response sv model prompt =
     (case chat_stream sv model prompt of
        Inl e \<Rightarrow> ([], Some e)
      | Inr (raw, fin) \<Rightarrow> stream_items raw fin)"

text \<open>A \<open>StreamingChunk\<close>: the \<open>type\<close> tag and the data (the timestamp is left out).\<close>

datatype event_data =
    StatusData string
  | SourceData SourceAttribution
  | ContentData string
  | MetadataData nat nat nat
  | DoneData string
  | ErrorData string string

record StreamingChunk =
  sc_type :: string
  sc_data :: event_data

definition status_event :: "string \<Rightarrow> StreamingChunk" where
  "status_event st = \<lparr>sc_type = ''status'', sc_data = StatusData st\<rparr>"

definition source_event :: "SourceAttribution \<Rightarrow> StreamingChunk" where
  "source_event src = \<lparr>sc_type = ''source'', sc_data = SourceData src\<rparr>"

definition content_event :: "string \<Rightarrow> StreamingChunk" where
  "content_event t = \<lparr>sc_type = ''content'', sc_data = ContentData t\<rparr>"

definition metadata_event :: "nat \<Rightarrow> nat \<Rightarrow> nat \<Rightarrow> StreamingChunk" where
  "metadata_event retrieved used sources =
     \<lparr>sc_type = ''metadata'', sc_data = MetadataData retrieved used sources\<rparr>"

definition done_event :: StreamingChunk where
  "done_event = \<lparr>sc_type = ''done'', sc_data = DoneData ''completed''\<rparr>"

definition error_event :: "error \<Rightarrow> StreamingChunk" where
  "error_event e = \<lparr>sc_type = ''error'', sc_data = ErrorData (str_of_error e) ''failed''\<rparr>"

text \<open>\<open>VectorSearchRequest(...)\<close> validates \<open>top_k\<close> in \<open>[1, 100]\<close>.\<close>

definition make_search_request ::
  "rat list \<Rightarrow> uuid list \<Rightarrow> int \<Rightarrow> rat \<Rightarrow> error + VectorSearchRequest"
where
  "make_search_request emb cids k thr =
     (if 1 \<le> k \<and> k \<le> 100
      then Inr \<lparr>query_embedding = emb, vs_collection_ids = cids, vs_top_k = k,
                score_threshold = thr, filters = []\<rparr>
      else Inl (ValidationError ''top_k''))"

text \<open>
  The events the generator yields, in order. Every statement of the body stands in
  the \<open>try\<close>; the handler yields one \<open>error\<close> event and the generator ends.
\<close>

definition process_streaming_rag_request ::
  "services \<Rightarrow> settings \<Rightarrow> RAGRequest \<Rightarrow> StreamingChunk list"
where
  "process_streaming_rag_request sv cfg request =
     status_event ''generating_embedding'' #
     (case generate_embedding sv (rq_query request) ''text-embedding-3-small'' of
        Inl e \<Rightarrow> [error_event e]
      | Inr emb \<Rightarrow>
          status_event ''searching_vectors'' #
          (case make_search_request emb (rq_collection_ids request) (rq_top_k request * 2) 0 of
             Inl e \<Rightarrow> [error_event e]
           | Inr search_request \<Rightarrow>
               (case vector_search (qdrant_search sv) search_request of
                  Inl e \<Rightarrow> [error_event e]
                | Inr search_response \<Rightarrow>
                    status_event ''merging_context'' #
                    (case merge_contexts (cfg_rrf_k cfg) (vs_chunks search_response)
                            (rq_query request) (cfg_max_context_tokens cfg) of
                       Inl e \<Rightarrow> [error_event e]
                     | Inr merge_result \<Rightarrow>
                         map source_event
                           (extract_source_attribution (selected_chunks merge_result)) @
                         status_event ''generating_response'' #
                         (case stream_llm_response sv (cfg_default_model cfg)
                                 (build_prompt (rq_query request) (merged_context merge_result)) of
                            (contents, failure) \<Rightarrow>
                              map content_event contents @
                              (case failure of
                                 Some e \<Rightarrow> [error_event e]
                               | None \<Rightarrow>
                                   [metadata_event (length (vs_chunks search_response))
                                      (length (selected_chunks merge_result))
                                      (length (extract_source_attribution
                                                 (selected_chunks merge_result))),
                                    done_event]))))))"

definition is_terminal :: "StreamingChunk \<Rightarrow> bool" where
  "is_terminal ev = (sc_type ev = ''done'' \<or> sc_type ev = ''error'')"

section \<open>Vector integration (file service, \<open>core/vector_integration.py\<close>)\<close>

record VectorSearchResult =
  vr_id :: string
  vr_score :: rat
  vr_payload :: metadata

text \<open>\<open>VectorService.search_vectors\<close>: collection name, query vector, limit, score
  threshold and filters to the results, or an exception.\<close>

type_synonym vector_service =
  "string \<Rightarrow> rat list \<Rightarrow> int \<Rightarrow> rat \<Rightarrow> (string \<times> string) list
   \<Rightarrow> error + VectorSearchResult list"

text \<open>\<open>d.update(other)\<close>\<close>

definition dict_update :: "('k \<times> 'v) list \<Rightarrow> ('k \<times> 'v) list \<Rightarrow> ('k \<times> 'v) list" where
  "dict_update d other = foldl (\<lambda>acc kv. dict_upd (fst kv) (\<lambda>_. snd kv) acc) d other"

definition search_similar_chunks ::
  "vector_service \<Rightarrow> rat list \<Rightarrow> string \<Rightarrow> int \<Rightarrow> rat \<Rightarrow> (string \<times> string) list option
   \<Rightarrow> error + VectorSearchResult list"
where
  "search_similar_chunks vs query_vec cid lmt thr flt =
     vs cid query_vec lmt thr
       (case flt of
          None \<Rightarrow> [(''collection_id'', cid)]
        | Some f \<Rightarrow> if f = [] then [(''collection_id'', cid)]
                    else dict_update [(''collection_id'', cid)] f)"

text \<open>The loop of \<open>search_across_collections\<close>: the \<open>try\<close> stands inside the loop
  and its handler logs and continues.\<close>

fun search_each ::
  "vector_service \<Rightarrow> rat list \<Rightarrow> int \<Rightarrow> rat \<Rightarrow> (string \<times> string) list option
   \<Rightarrow> string list \<Rightarrow> VectorSearchResult list \<Rightarrow> VectorSearchResult list"
where
  "search_each vs query_vec lmt thr flt [] all_results = all_results"
| "search_each vs query_vec lmt thr flt (cid # cids) all_results =
     (case search_similar_chunks vs query_vec cid lmt thr flt of
        Inl e \<Rightarrow> search_each vs query_vec lmt thr flt cids all_results
      | Inr results \<Rightarrow> search_each vs query_vec lmt thr flt cids (all_results @ results))"

definition search_across_collections ::
  "vector_service \<Rightarrow> rat list \<Rightarrow> string list \<Rightarrow> int \<Rightarrow> rat \<Rightarrow> (string \<times> string) list option
   \<Rightarrow> VectorSearchResult list"
where
  "search_across_collections vs query_vec cids lmt thr flt =
     py_slice (sorted_desc vr_score (search_each vs query_vec lmt thr flt cids [])) 0 lmt"

section \<open>Embedder (file service, \<open>embedding/embedder.py\<close>)\<close>

text \<open>\<open>text.split()\<close>: the maximal runs of non-whitespace characters. The first
  argument collects the current word in reverse.\<close>

fun split_ws :: "string \<Rightarrow> string \<Rightarrow> string list" where
  "split_ws acc [] = (if acc = [] then [] else [rev acc])"
| "split_ws acc (c # cs) =
     (if is_space c then (if acc = [] then split_ws [] cs else rev acc # split_ws [] cs)
      else split_ws (c # acc) cs)"

text \<open>\<open>BaseEmbedder._validate_text\<close>\<close>

definition validate_text :: "string \<Rightarrow> error + string" where
  "validate_text t =
     (if t = [] \<or> strip t = [] then Inl (ValueError ''Text cannot be empty'')
      else (let t' = join '' '' (split_ws [] t)
            in Inr (if length t' > 8000 then take 8000 t' else t')))"

text \<open>The models \<open>OpenAIEmbedder.__init__\<close> accepts (\<open>model_configs\<close>).\<close>

datatype openai_model = text_embedding_3_small | text_embedding_3_large | text_embedding_ada_002

fun openai_model_name :: "openai_model \<Rightarrow> string" where
  "openai_model_name text_embedding_3_small = ''text-embedding-3-small''"
| "openai_model_name text_embedding_3_large = ''text-embedding-3-large''"
| "openai_model_name text_embedding_ada_002 = ''text-embedding-ada-002''"

fun openai_model_dimension :: "openai_model \<Rightarrow> int" where
  "openai_model_dimension text_embedding_3_small = 1536"
| "openai_model_dimension text_embedding_3_large = 3072"
| "openai_model_dimension text_embedding_ada_002 = 1536"

text \<open>
  The input of \<open>client.embeddings.create\<close> is one text or a list of texts; its outcome
  is an exception or the embeddings of \<open>response.data\<close>. The provider is a function
  of the model name and the input: the same call gives the same outcome.
\<close>

datatype api_input = Single string | Batch "string list"

type_synonym embeddings_api = "string \<Rightarrow> api_input \<Rightarrow> error + rat list list"

text \<open>
  The embedders \<open>EmbeddingService._create_embedder\<close> can build. The mock embedder
  carries its hash-derived vector as a function of the validated text (the MD5 bytes
  scaled and repeated up to the dimension) and its dimension.
\<close>

datatype embedder =
    OpenAIEmbedder embeddings_api openai_model
  | MockEmbedder "string \<Rightarrow> rat list" int

fun get_model_name :: "embedder \<Rightarrow> string" where
  "get_model_name (OpenAIEmbedder client m) = openai_model_name m"
| "get_model_name (MockEmbedder vec dimension) = ''mock-embedder''"

fun get_embedding_dimension :: "embedder \<Rightarrow> int" where
  "get_embedding_dimension (OpenAIEmbedder client m) = openai_model_dimension m"
| "get_embedding_dimension (MockEmbedder vec dimension) = dimension"

text \<open>\<open>generate_embedding\<close> of the two embedders. The validation stands before the
  \<open>try\<close>; an exception of the call or of \<open>response.data[0]\<close> is wrapped.\<close>

fun embedder_generate_embedding :: "embedder \<Rightarrow> string \<Rightarrow> error + rat list" where
  "embedder_generate_embedding (OpenAIEmbedder client m) t =
     (case validate_text t of
        Inl e \<Rightarrow> Inl e
      | Inr t' \<Rightarrow>
          (case client (openai_model_name m) (Single t') of
             Inl e \<Rightarrow>
               Inl (RuntimeError (''OpenAI embedding generation failed: '' @ str_of_error e))
           | Inr [] \<Rightarrow>
               Inl (RuntimeError (''OpenAI embedding generation failed: ''
                                  @ ''list index out of range''))
           | Inr (v # _) \<Rightarrow> Inr v))"
| "embedder_generate_embedding (MockEmbedder vec dimension) t =
     (case validate_text t of Inl e \<Rightarrow> Inl e | Inr t' \<Rightarrow> Inr (vec t'))"

text \<open>A list comprehension or loop whose body can raise.\<close>

fun map_err :: "('a \<Rightarrow> error + 'b) \<Rightarrow> 'a list \<Rightarrow> error + 'b list" where
  "map_err f [] = Inr []"
| "map_err f (x # xs) =
     (case f x of
        Inl e \<Rightarrow> Inl e
      | Inr y \<Rightarrow> (case map_err f xs of Inl e \<Rightarrow> Inl e | Inr ys \<Rightarrow> Inr (y # ys)))"

fun embedder_generate_embeddings :: "embedder \<Rightarrow> string list \<Rightarrow> error + rat list list" where
  "embedder_generate_embeddings (OpenAIEmbedder client m) texts =
     (if texts = [] then Inr []
      else
        (case map_err validate_text texts of
           Inl e \<Rightarrow> Inl e
         | Inr validated_texts \<Rightarrow>
             (case client (openai_model_name m) (Batch validated_texts) of
                Inl e \<Rightarrow>
                  Inl (RuntimeError (''OpenAI batch embedding generation failed: ''
                                     @ str_of_error e))
              | Inr data \<Rightarrow> Inr data)))"
| "embedder_generate_embeddings (MockEmbedder vec dimension) texts =
     map_err (embedder_generate_embedding (MockEmbedder vec dimension)) texts"

subsection \<open>EmbeddingService\<close>

text \<open>The dictionary \<open>embed_text\<close> returns.\<close>

record embed_result =
  res_embedding :: "rat list option"
  res_model :: string
  res_dimension :: int
  res_text_length :: nat
  res_success :: bool
  res_error :: "string option"

definition embed_text :: "embedder \<Rightarrow> string \<Rightarrow> error + embed_result" where
  "embed_text e t =
     (case embedder_generate_embedding e t of
        Inr v \<Rightarrow>
          Inr \<lparr>res_embedding = Some v, res_model = get_model_name e,
               res_dimension = get_embedding_dimension e, res_text_length = length t,
               res_success = True, res_error = None\<rparr>
      | Inl ex \<Rightarrow>
          Inr \<lparr>res_embedding = None, res_model = get_model_name e,
               res_dimension = get_embedding_dimension e, res_text_length = length t,
               res_success = False, res_error = Some (str_of_error ex)\<rparr>)"

text \<open>A chunk with the keys \<open>embed_chunks\<close> adds to its copy.\<close>

record enriched_chunk = chunk +
  embedding :: "rat list option"
  embedding_model :: string
  embedding_dimension :: int
  success :: bool
  error :: "string option"

definition enrich ::
  "embedder \<Rightarrow> chunk \<Rightarrow> rat list option \<Rightarrow> bool \<Rightarrow> string option \<Rightarrow> enriched_chunk"
where
  "enrich e c emb ok err =
     \<lparr>ctext = ctext c, cindex = cindex c, start_position = start_position c,
      end_position = end_position c, cmetadata = cmetadata c,
      embedding = emb, embedding_model = get_model_name e,
      embedding_dimension = get_embedding_dimension e, success = ok, error = err\<rparr>"

text \<open>\<open>for i, chunk in enumerate(chunks)\<close> of \<open>embed_chunks\<close>: \<open>embeddings[i]\<close> raises
  when the provider returned fewer embeddings than texts.\<close>

fun enrich_all ::
  "embedder \<Rightarrow> chunk list \<Rightarrow> rat list list \<Rightarrow> nat \<Rightarrow> enriched_chunk list
   \<Rightarrow> error + enriched_chunk list"
where
  "enrich_all e [] embeddings i enriched_chunks = Inr enriched_chunks"
| "enrich_all e (c # cs) embeddings i enriched_chunks =
     (if i < length embeddings
      then enrich_all e cs embeddings (Suc i)
             (enriched_chunks @ [enrich e c (Some (embeddings ! i)) True None])
      else Inl (IndexError ''list index out of range''))"

text \<open>The body of the \<open>try\<close> of \<open>embed_chunks\<close>: the batch call and the loop.\<close>

definition embed_batch :: "embedder \<Rightarrow> chunk list \<Rightarrow> error + enriched_chunk list" where
  "embed_batch e chunks =
     (case embedder_generate_embeddings e (map ctext chunks) of
        Inl ex \<Rightarrow> Inl ex
      | Inr embeddings \<Rightarrow> enrich_all e chunks embeddings 0 [])"

text \<open>\<open>_embed_chunks_individually\<close>: one \<open>try\<close> per chunk.\<close>

definition embed_one :: "embedder \<Rightarrow> chunk \<Rightarrow> enriched_chunk" where
  "embed_one e c =
     (case embedder_generate_embedding e (ctext c) of
        Inr v \<Rightarrow> enrich e c (Some v) True None
      | Inl ex \<Rightarrow>
          enrich e c None False (Some (''Individual embedding failed: '' @ str_of_error ex)))"

definition embed_chunks_individually ::
  "embedder \<Rightarrow> chunk list \<Rightarrow> string \<Rightarrow> error + enriched_chunk list"
where
  "embed_chunks_individually e chunks batch_error = Inr (map (embed_one e) chunks)"

definition embed_chunks :: "embedder \<Rightarrow> chunk list \<Rightarrow> error + enriched_chunk list" where
  "embed_chunks e chunks =
     (if chunks = [] then Inr []
      else
        (case embed_batch e chunks of
           Inr enriched_chunks \<Rightarrow> Inr enriched_chunks
         | Inl ex \<Rightarrow> embed_chunks_individually e chunks (str_of_error ex)))"

section \<open>Ingestion pipeline (file service, \<open>api/files.py\<close>)\<close>

datatype FileStatus = UPLOADED | PROCESSING | PROCESSED | FAILED | DELETED

record file_record =
  file_path :: string
  file_type :: string
  file_collection_id :: "string option"

text \<open>The dictionary of \<open>TextExtractionService.extract_text\<close>.\<close>

record extraction_result =
  ex_success :: bool
  ex_text :: string
  ex_metadata :: metadata
  ex_error :: string

text \<open>
  What the pipeline leaves behind: the status and the error message of the file row,
  the vector ids written to the chunk rows, and the lines of \<open>logger.error\<close>.
\<close>

record pipeline_state =
  status :: FileStatus
  error_message :: "string option"
  vector_ids :: "string list"
  error_log :: "string list"

text \<open>
  The calls of the pipeline that only succeed or raise, by the place of the call; the
  number is the index of the chunk record. \<open>raises env site\<close> is the exception of
  that call, if it raises.
\<close>

datatype call_site =
    SetProcessing
  | SetExtractionFailed
  | UpdateExtractedText
  | CreateChunks
  | UpdateChunkEmbedding nat
  | GetVectorService
  | EnsureCollection
  | UpdateVectorId nat
  | SetProcessed
  | SetFailed

record pipeline_env =
  get_file_by_id :: "error + file_record option"
  extract_text :: "string \<Rightarrow> string \<Rightarrow> error + extraction_result"
  raises :: "call_site \<Rightarrow> error option"
  upsert_points :: "error + bool"
  chunk_record_id :: "nat \<Rightarrow> string"

text \<open>
  \<open>for i, chunk_record in enumerate(chunk_records)\<close>: the chunk records are numbered
  like the chunks; a record whose enriched chunk has \<open>success\<close> gets its embedding
  written and joins \<open>successful_chunks\<close> and \<open>successful_embeddings\<close>.
\<close>

fun collect_successful ::
  "pipeline_env \<Rightarrow> enriched_chunk list \<Rightarrow> nat list \<Rightarrow> (nat \<times> rat list option) list
   \<Rightarrow> error + (nat \<times> rat list option) list"
where
  "collect_successful env enriched [] successful = Inr successful"
| "collect_successful env enriched (i # rest) successful =
     (if i < length enriched then
        (if success (enriched ! i) then
           (case raises env (UpdateChunkEmbedding i) of
              Some e \<Rightarrow> Inl e
            | None \<Rightarrow>
                collect_successful env enriched rest
                  (successful @ [(i, embedding (enriched ! i))]))
         else collect_successful env enriched rest successful)
      else collect_successful env enriched rest successful)"

text \<open>\<open>FileVectorService.store_chunk_embeddings\<close> (\<open>core/vector_integration.py\<close>);
  \<open>len(embeddings[0])\<close> raises on an empty list.\<close>

definition store_chunk_embeddings ::
  "pipeline_env \<Rightarrow> nat list \<Rightarrow> rat list option list \<Rightarrow> string \<Rightarrow> error + string list"
where
  "store_chunk_embeddings env chunks embeddings collection =
     (if length chunks \<noteq> length embeddings
      then Inl (ValueError ''Number of chunks must match number of embeddings'')
      else if embeddings = [] then Inl (IndexError ''list index out of range'')
      else
        (case raises env EnsureCollection of
           Some e \<Rightarrow> Inl e
         | None \<Rightarrow>
             (case upsert_points env of
                Inl e \<Rightarrow> Inl e
              | Inr ok \<Rightarrow>
                  if ok then Inr (map (chunk_record_id env) chunks)
                  else Inl (RuntimeError ''Failed to store embeddings in Qdrant''))))"

text \<open>\<open>for chunk_record, vector_id in zip(successful_chunks, vector_ids)\<close>: each write
  that succeeded stays written when a later one raises. (The source passes \<open>None\<close> as
  the embedding here, on which \<open>update_chunk_embedding\<close> raises once it has found the
  chunk row; the environment may let the write succeed or raise.)\<close>

fun record_vector_ids ::
  "pipeline_env \<Rightarrow> (nat \<times> string) list \<Rightarrow> pipeline_state \<Rightarrow> error option \<times> pipeline_state"
where
  "record_vector_ids env [] st = (None, st)"
| "record_vector_ids env ((i, vector_id) # rest) st =
     (case raises env (UpdateVectorId i) of
        Some e \<Rightarrow> (Some e, st)
      | None \<Rightarrow> record_vector_ids env rest (st\<lparr>vector_ids := vector_ids st @ [vector_id]\<rparr>))"

text \<open>The body of the inner \<open>try\<close> (step 4), and the step with its handler, which
  logs the exception and goes on.\<close>

definition vector_storage_try ::
  "pipeline_env \<Rightarrow> file_record \<Rightarrow> (nat \<times> rat list option) list \<Rightarrow> pipeline_state
   \<Rightarrow> error option \<times> pipeline_state"
where
  "vector_storage_try env file successful st =
     (case raises env GetVectorService of
        Some e \<Rightarrow> (Some e, st)
      | None \<Rightarrow>
          (case store_chunk_embeddings env (map fst successful) (map snd successful)
                  (case file_collection_id file of
                     None \<Rightarrow> ''default_collection''
                   | Some c \<Rightarrow> if c = [] then ''default_collection'' else c) of
             Inl e \<Rightarrow> (Some e, st)
           | Inr ids \<Rightarrow> record_vector_ids env (zip (map fst successful) ids) st))"

definition vector_storage_step ::
  "pipeline_env \<Rightarrow> file_record \<Rightarrow> (nat \<times> rat list option) list \<Rightarrow> pipeline_state
   \<Rightarrow> pipeline_state"
where
  "vector_storage_step env file successful st =
     (if successful \<noteq> [] then
        (case vector_storage_try env file successful st of
           (Some e, st') \<Rightarrow>
             st'\<lparr>error_log := error_log st' @
                    [''Failed to store embeddings in vector database: '' @ str_of_error e]\<rparr>
         | (None, st') \<Rightarrow> st')
      else st)"

text \<open>
  The body of the outer \<open>try\<close> of \<open>process_file_pipeline\<close>, in three parts that
  follow its steps. Each gives the exception that reaches the outer handler, if any,
  and the state at that moment.

  Steps 3 and 4 and the last status update, from the chunk records on:
\<close>

definition embed_and_store ::
  "pipeline_env \<Rightarrow> embedder \<Rightarrow> file_record \<Rightarrow> chunk list \<Rightarrow> pipeline_state
   \<Rightarrow> error option \<times> pipeline_state"
where
  "embed_and_store env emb file chunks st =
     (case embed_chunks emb chunks of
        Inl e \<Rightarrow> (Some e, st)
      | Inr enriched \<Rightarrow>
          (case collect_successful env enriched [0 ..< length chunks] [] of
             Inl e \<Rightarrow> (Some e, st)
           | Inr successful \<Rightarrow>
               (case raises env SetProcessed of
                  Some e \<Rightarrow> (Some e, vector_storage_step env file successful st)
                | None \<Rightarrow>
                    (None, (vector_storage_step env file successful st)
                             \<lparr>status := PROCESSED\<rparr>))))"

text \<open>Step 2, from a successful extraction on; \<open>None\<close> when the chunker does not
  return.\<close>

definition chunk_and_continue ::
  "pipeline_env \<Rightarrow> embedder \<Rightarrow> ChunkingStrategy \<Rightarrow> int \<Rightarrow> int \<Rightarrow> file_record
   \<Rightarrow> extraction_result \<Rightarrow> pipeline_state \<Rightarrow> (error option \<times> pipeline_state) option"
where
  "chunk_and_continue env emb strategy chunk_size chunk_overlap file extraction st =
     (case raises env UpdateExtractedText of
        Some e \<Rightarrow> Some (Some e, st)
      | None \<Rightarrow>
          (case ChunkingService_chunk_text (ex_text extraction) strategy chunk_size
                  chunk_overlap (Some (ex_metadata extraction)) of
             None \<Rightarrow> None
           | Some (Inl e) \<Rightarrow> Some (Some e, st)
           | Some (Inr chunks) \<Rightarrow>
               (case raises env CreateChunks of
                  Some e \<Rightarrow> Some (Some e, st)
                | None \<Rightarrow> Some (embed_and_store env emb file chunks st))))"

text \<open>The file record, the status \<open>processing\<close> and step 1.\<close>

definition pipeline_try ::
  "pipeline_env \<Rightarrow> embedder \<Rightarrow> ChunkingStrategy \<Rightarrow> int \<Rightarrow> int \<Rightarrow> pipeline_state
   \<Rightarrow> (error option \<times> pipeline_state) option"
where
  "pipeline_try env emb strategy chunk_size chunk_overlap st =
     (case get_file_by_id env of
        Inl e \<Rightarrow> Some (Some e, st)
      | Inr None \<Rightarrow> Some (None, st)
      | Inr (Some file) \<Rightarrow>
          (case raises env SetProcessing of
             Some e \<Rightarrow> Some (Some e, st)
           | None \<Rightarrow>
               (case extract_text env (file_path file) (file_type file) of
                  Inl e \<Rightarrow> Some (Some e, st\<lparr>status := PROCESSING\<rparr>)
                | Inr extraction \<Rightarrow>
                    if \<not> ex_success extraction then
                      (case raises env SetExtractionFailed of
                         Some e \<Rightarrow> Some (Some e, st\<lparr>status := PROCESSING\<rparr>)
                       | None \<Rightarrow>
                           Some (None,
                             st\<lparr>status := FAILED,
                                error_message :=
                                  Some (''Text extraction failed: '' @ ex_error extraction)\<rparr>))
                    else chunk_and_continue env emb strategy chunk_size chunk_overlap file
                           extraction (st\<lparr>status := PROCESSING\<rparr>))))"

text \<open>\<open>process_file_pipeline\<close>: the outer handler sets the status to \<open>failed\<close>; an
  exception of that write leaves the task.\<close>

definition process_file_pipeline ::
  "pipeline_env \<Rightarrow> embedder \<Rightarrow> ChunkingStrategy \<Rightarrow> int \<Rightarrow> int \<Rightarrow> pipeline_state
   \<Rightarrow> (error option \<times> pipeline_state) option"
where
  "process_file_pipeline env emb strategy chunk_size chunk_overlap st =
     (case pipeline_try env emb strategy chunk_size chunk_overlap st of
        None \<Rightarrow> None
      | Some (None, st') \<Rightarrow> Some (None, st')
      | Some (Some e, st') \<Rightarrow>
          (case raises env SetFailed of
             Some e' \<Rightarrow> Some (Some e', st')
           | None \<Rightarrow>
               Some (None, st'\<lparr>status := FAILED,
                              error_message :=
                                Some (''Processing pipeline failed: '' @ str_of_error e)\<rparr>)))"

section \<open>Examples and specification-side definitions\<close>

subsection \<open>Configuration and an example retrieval\<close>

text \<open>\<open>ChatServiceConfig.rrf_k\<close> (\<open>common/config.py\<close>): \<open>rrf_k: float = 60.0\<close>.\<close>

definition default_rrf_k :: rat where
  "default_rrf_k = 60"

text \<open>
  Four retrieved chunks: \<open>X\<close> is the only chunk of collection \<open>A\<close> and the least
  similar of the three chunks of collection \<open>B\<close>; \<open>Y\<close> and \<open>Z\<close> occur in
  \<open>B\<close> only.
\<close>

definition example_chunk :: "uuid \<Rightarrow> uuid \<Rightarrow> rat \<Rightarrow> string \<Rightarrow> RetrievedChunk" where
  "example_chunk cid col sim txt =
     \<lparr>chunk_id = cid, document_id = ''doc'', collection_id = col, content = txt,
      similarity_score = sim, chunk_metadata = [], rank = 1\<rparr>"

definition example_chunks :: "RetrievedChunk list" where
  "example_chunks =
     [example_chunk ''X'' ''A'' (9 / 10) ''xxxxxxxxxxxx'',
      example_chunk ''Y'' ''B'' (9 / 10) ''yyyy'',
      example_chunk ''Z'' ''B'' (8 / 10) ''zzzzzzzz'',
      example_chunk ''X'' ''B'' (5 / 10) ''xxxxxxxxxxxx'']"

subsection \<open>The fused score as the specification states it\<close>

text \<open>
  Reciprocal rank fusion in the words of the specification: the chunks are grouped by
  collection, each group is ranked from 1 by descending similarity, and a chunk id
  receives \<open>1 / (k_rrf + rank)\<close> for each place at which it occurs, summed over the
  collections.
\<close>

definition collections_of :: "RetrievedChunk list \<Rightarrow> uuid list" where
  "collections_of chunks = remdups (map collection_id chunks)"

definition rrf_contribution :: "rat \<Rightarrow> uuid \<Rightarrow> nat \<times> RetrievedChunk \<Rightarrow> rat" where
  "rrf_contribution rrf_k cid rc =
     (case rc of (rnk, c) \<Rightarrow> if chunk_id c = cid then 1 / (rrf_k + of_nat rnk) else 0)"

definition fused_score_spec :: "rat \<Rightarrow> RetrievedChunk list \<Rightarrow> uuid \<Rightarrow> rat" where
  "fused_score_spec rrf_k chunks cid =
     (\<Sum>col\<leftarrow>collections_of chunks.
        \<Sum>rc\<leftarrow>ranked (filter (\<lambda>c. collection_id c = col) chunks). rrf_contribution rrf_k cid rc)"

text \<open>The score stored under a chunk id in \<open>rrf_scores\<close>, zero when there is none.\<close>

definition score_of :: "(uuid \<times> RetrievedChunk \<times> rat) list \<Rightarrow> uuid \<Rightarrow> rat" where
  "score_of scores cid = (case map_of scores cid of None \<Rightarrow> 0 | Some (c, sc) \<Rightarrow> sc)"

subsection \<open>A search in which one collection fails\<close>

text \<open>The vector engine refuses the search of collection \<open>A\<close> and returns one hit
  for every other collection.\<close>

definition example_hit :: ScoredPoint where
  "example_hit =
     \<lparr>sp_score = 9 / 10, payload_chunk_id = Some (Inr ''c1''),
      payload_document_id = Some (Inr ''d1''), payload_chunk_text = Some ''some text'',
      payload_metadata = None\<rparr>"

definition failing_qdrant :: qdrant_client where
  "failing_qdrant name query_vec lmt thr flt =
     (if name = ''knowledge_collection_A'' then Inl (OtherError ''connection refused'')
      else Inr [example_hit])"

definition example_search_request :: VectorSearchRequest where
  "example_search_request =
     \<lparr>query_embedding = [], vs_collection_ids = [''A'', ''B''], vs_top_k = 10,
      score_threshold = 0, filters = []\<rparr>"

definition failing_vector_service :: vector_service where
  "failing_vector_service name query_vec lmt thr flt =
     (if name = ''A'' then Inl (OtherError ''connection refused'')
      else Inr [\<lparr>vr_id = ''c1'', vr_score = 9 / 10, vr_payload = []\<rparr>])"

subsection \<open>The outcome of the stages of a streamed query\<close>

text \<open>The first failure among the stages of the streaming generator (query embedding,
  search request, vector search, fusion, completion stream), \<open>None\<close> when every stage
  succeeds.\<close>

definition stage_failure :: "services \<Rightarrow> settings \<Rightarrow> RAGRequest \<Rightarrow> error option" where
  "stage_failure sv cfg request =
     (case generate_embedding sv (rq_query request) ''text-embedding-3-small'' of
        Inl e \<Rightarrow> Some e
      | Inr emb \<Rightarrow>
          (case make_search_request emb (rq_collection_ids request) (rq_top_k request * 2) 0 of
             Inl e \<Rightarrow> Some e
           | Inr search_request \<Rightarrow>
               (case vector_search (qdrant_search sv) search_request of
                  Inl e \<Rightarrow> Some e
                | Inr search_response \<Rightarrow>
                    (case merge_contexts (cfg_rrf_k cfg) (vs_chunks search_response)
                            (rq_query request) (cfg_max_context_tokens cfg) of
                       Inl e \<Rightarrow> Some e
                     | Inr merge_result \<Rightarrow>
                         snd (stream_llm_response sv (cfg_default_model cfg)
                                (build_prompt (rq_query request) (merged_context merge_result)))))))"

text \<open>
  The shape of a stream: status and source events, then content events, then either
  the metadata event and the \<open>done\<close> event (no failure) or one \<open>error\<close> event.
\<close>

definition stream_shape :: "error option \<Rightarrow> StreamingChunk list \<Rightarrow> bool" where
  "stream_shape failure tr =
     (\<exists>pre contents fin.
        tr = pre @ map content_event contents @ fin \<and>
        list_all (\<lambda>ev. sc_type ev = ''status'' \<or> sc_type ev = ''source'') pre \<and>
        (case failure of
           None \<Rightarrow> (\<exists>a b c. fin = [metadata_event a b c, done_event])
         | Some e \<Rightarrow> fin = [error_event e]))"

subsection \<open>Sequential embedding, and an example batch\<close>

text \<open>\<open>embed_text\<close> called on each text in turn.\<close>

definition embed_text_sequentially :: "embedder \<Rightarrow> string list \<Rightarrow> error + embed_result list" where
  "embed_text_sequentially e texts = map_err (embed_text e) texts"

text \<open>A mock embedder of dimension 2, and two chunks of which the second is blank, so
  that the batch call raises.\<close>

definition example_embedder :: embedder where
  "example_embedder = MockEmbedder (\<lambda>t. [of_nat (length t), 1 / 2]) 2"

definition example_batch :: "chunk list" where
  "example_batch =
     [\<lparr>ctext = ''alpha beta'', cindex = 0, start_position = 0, end_position = 10,
       cmetadata = []\<rparr>,
      \<lparr>ctext = ''  '', cindex = 1, start_position = 10, end_position = 12,
       cmetadata = []\<rparr>]"

text \<open>What \<open>embed_text\<close> returns, as a function of the text.\<close>

definition embed_text_result :: "embedder \<Rightarrow> string \<Rightarrow> embed_result" where
  "embed_text_result e t =
     (case embedder_generate_embedding e t of
        Inr v \<Rightarrow>
          \<lparr>res_embedding = Some v, res_model = get_model_name e,
           res_dimension = get_embedding_dimension e, res_text_length = length t,
           res_success = True, res_error = None\<rparr>
      | Inl ex \<Rightarrow>
          \<lparr>res_embedding = None, res_model = get_model_name e,
           res_dimension = get_embedding_dimension e, res_text_length = length t,
           res_success = False, res_error = Some (str_of_error ex)\<rparr>)"

subsection \<open>The vector-storage calls of the pipeline, and an example run\<close>

text \<open>The calls inside the inner \<open>try\<close> of step 4.\<close>

fun is_vector_site :: "call_site \<Rightarrow> bool" where
  "is_vector_site GetVectorService = True"
| "is_vector_site EnsureCollection = True"
| "is_vector_site (UpdateVectorId i) = True"
| "is_vector_site site = False"

text \<open>Two environments agree outside the vector-storage step.\<close>

definition same_outside_vector_storage :: "pipeline_env \<Rightarrow> pipeline_env \<Rightarrow> bool" where
  "same_outside_vector_storage env env' =
     (get_file_by_id env' = get_file_by_id env \<and>
      extract_text env' = extract_text env \<and>
      (\<forall>site. is_vector_site site \<or> raises env' site = raises env site))"

text \<open>An environment in which only the vector index refuses the upsert.\<close>

definition example_env :: pipeline_env where
  "example_env =
     \<lparr>get_file_by_id =
        Inr (Some \<lparr>file_path = ''/data/a.txt'', file_type = ''txt'',
                   file_collection_id = None\<rparr>),
      extract_text = (\<lambda>path ftype.
        Inr \<lparr>ex_success = True, ex_text = ''alpha beta'', ex_metadata = [], ex_error = []\<rparr>),
      raises = (\<lambda>site. None),
      upsert_points = Inl (OtherError ''connection refused''),
      chunk_record_id = (\<lambda>i. ''chunk'')\<rparr>"

definition initial_state :: pipeline_state where
  "initial_state =
     \<lparr>status = UPLOADED, error_message = None, vector_ids = [], error_log = []\<rparr>"

text \<open>An environment in which the creation of the chunk records raises.\<close>

definition db_failing_env :: pipeline_env where
  "db_failing_env =
     example_env\<lparr>raises := (\<lambda>site. if site = CreateChunks then Some (OtherError ''db'') else None)\<rparr>"

text \<open>What a run of the pipeline shows of the file: the exception that left the task,
  the status and the error message.\<close>

definition outcome ::
  "(error option \<times> pipeline_state) option \<Rightarrow> (error option \<times> FileStatus \<times> string option) option"
where
  "outcome r = map_option (\<lambda>(e, s). (e, status s, error_message s)) r"

section \<open>Properties of the chunker\<close>

subsection \<open>The fixed-size loop\<close>

text \<open>
  With a positive overlap, a window that starts inside the text is followed by another
  window that starts inside the text: the next start is \<open>e - overlap\<close>, below the end
  \<open>e\<close> of the window (so the guard \<open>start >= end\<close> does not fire) and below
  \<open>len(text)\<close>. Hence the loop returns from no such state.
\<close>

lemma FixedSizeChunker_loop_never_returns:
  assumes "FixedSizeChunker_loop cs ov md t start idx chunks = Some y"
  shows "\<not> (0 < ov \<and> start < int (length t))"
proof (rule FixedSizeChunker_loop.raw_induct
     [where P = "\<lambda>cs ov md t start idx chunks y. \<not> (0 < ov \<and> start < int (length t))",
      OF _ assms], goal_cases)
  case (1 f cs ov md t start idx chunks y)
  show ?case
  proof
    assume a: "0 < ov \<and> start < int (length t)"
    let ?e = "min (start + cs) (int (length t))"
    from a 1(2) obtain ch where "f cs ov md t (?e - ov) (idx + 1) ch = Some y"
      by (auto simp: Let_def split: if_splits)
    from 1(1)[OF this] a show False
      by auto
  qed
qed

lemma FixedSizeChunker_loop_diverges:
  "0 < ov \<Longrightarrow> start < int (length t) \<Longrightarrow>
   FixedSizeChunker_loop cs ov md t start idx chunks = None"
  using FixedSizeChunker_loop_never_returns [of cs ov md t start idx chunks]
  by (cases "FixedSizeChunker_loop cs ov md t start idx chunks") auto

lemma FixedSizeChunker_chunk_text_diverges:
  "0 < ov \<Longrightarrow> cs < int (length (clean_text t)) \<Longrightarrow> 0 \<le> cs \<Longrightarrow>
   FixedSizeChunker_chunk_text cs ov t md = None"
  by (auto simp: FixedSizeChunker_chunk_text_def Let_def intro!: FixedSizeChunker_loop_diverges)

text \<open>
  Claim C4. Fixed-size chunking is claimed to terminate for every text, every
  \<open>chunk_size > 0\<close> and every \<open>overlap \<ge> 0\<close>, in particular when
  \<open>overlap \<ge> chunk_size\<close>. The code does not return on the text \<open>abcdef\<close> with
  \<open>chunk_size = 2\<close> and \<open>overlap = 3\<close>, nor with \<open>chunk_size = 4\<close> and
  \<open>overlap = 1\<close>: the guard \<open>start >= end\<close> compares the new start with the end of
  the window just cut, which a positive overlap always keeps above it.
\<close>

theorem fixed_size_chunking_does_not_return:
  "FixedSizeChunker_chunk_text 2 3 ''abcdef'' None = None \<and>
   FixedSizeChunker_chunk_text 4 1 ''abcdef'' None = None \<and>
   ChunkingService_chunk_text ''abcdef'' FIXED 2 3 None = None"
  by (simp add: ChunkingService_chunk_text_def FixedSizeChunker_chunk_text_def clean_text_def
      strip_def is_space_def FixedSizeChunker_loop_diverges)

subsection \<open>Empty and whitespace-only documents\<close>

text \<open>
  A document of whitespace only is normalized to the empty text. With a non-negative
  \<open>chunk_size\<close> the fixed and the recursive strategy then return the empty text as
  one chunk; the paragraph strategy returns no chunk.
\<close>

lemma collapse_ws_blank: "list_all is_space t \<Longrightarrow> collapse_ws t = [] \<or> collapse_ws t = '' ''"
proof (cases t)
  case Nil
  then show ?thesis by simp
next
  case (Cons c cs)
  assume "list_all is_space t"
  with Cons have c: "is_space c" and "\<forall>x\<in>set cs. is_space x"
    by (simp_all add: list_all_iff)
  then have d: "dropWhile is_space cs = []"
    by simp
  have "collapse_ws (c # cs) = CHR '' '' # collapse_ws (dropWhile is_space cs)"
    using c by simp
  also have "\<dots> = '' ''"
    by (simp only: d collapse_ws.simps)
  finally show ?thesis using Cons by simp
qed

lemma clean_text_blank: "list_all is_space t \<Longrightarrow> clean_text t = []"
  using collapse_ws_blank[of t]
  by (auto simp: clean_text_def strip_def is_space_def)

lemma blank_document_fixed:
  "list_all is_space t \<Longrightarrow> 0 \<le> chunk_size \<Longrightarrow>
   ChunkingService_chunk_text t FIXED chunk_size overlap md =
     Some (Inr [\<lparr>ctext = [], cindex = 0, start_position = 0, end_position = 0,
                 cmetadata = or_empty md\<rparr>])"
  by (simp add: ChunkingService_chunk_text_def FixedSizeChunker_chunk_text_def clean_text_blank
      create_chunk_def strip_def reindex_def enumerate_eq_zip)

lemma blank_document_recursive:
  "list_all is_space t \<Longrightarrow> 0 \<le> chunk_size \<Longrightarrow>
   ChunkingService_chunk_text t RECURSIVE chunk_size overlap md =
     Some (Inr [\<lparr>ctext = [], cindex = 0, start_position = 0, end_position = 0,
                 cmetadata = or_empty md\<rparr>])"
  by (simp add: ChunkingService_chunk_text_def RecursiveChunker_chunk_text_def
      recursive_split_def clean_text_blank create_chunk_def strip_def reindex_def
      enumerate_eq_zip or_empty_def)

lemma blank_document_paragraph:
  "list_all is_space t \<Longrightarrow>
   ChunkingService_chunk_text t PARAGRAPH chunk_size overlap md = Some (Inr [])"
  by (simp add: ChunkingService_chunk_text_def ParagraphChunker_chunk_text_def
      clean_text_blank strip_def reindex_def enumerate_eq_zip)

text \<open>
  Claim C8. Every strategy is claimed to return no chunk for an empty or
  whitespace-only document. For the fixed, recursive and semantic strategies the code
  returns one chunk with the empty text (the normalized text is not longer than
  \<open>chunk_size\<close>, and that branch returns it as a single chunk); only the paragraph
  strategy returns the empty list.
\<close>

theorem whitespace_document_yields_an_empty_chunk:
  "ChunkingService_chunk_text ''   '' FIXED 1000 100 None =
     Some (Inr [\<lparr>ctext = [], cindex = 0, start_position = 0, end_position = 0,
                 cmetadata = []\<rparr>]) \<and>
   ChunkingService_chunk_text ''   '' RECURSIVE 1000 100 None =
     Some (Inr [\<lparr>ctext = [], cindex = 0, start_position = 0, end_position = 0,
                 cmetadata = []\<rparr>]) \<and>
   ChunkingService_chunk_text ''   '' SEMANTIC 1000 100 None =
     Some (Inr [\<lparr>ctext = [], cindex = 0, start_position = 0, end_position = 0,
                 cmetadata = []\<rparr>]) \<and>
   ChunkingService_chunk_text [] FIXED 1000 100 None =
     Some (Inr [\<lparr>ctext = [], cindex = 0, start_position = 0, end_position = 0,
                 cmetadata = []\<rparr>]) \<and>
   ChunkingService_chunk_text ''   '' PARAGRAPH 1000 100 None = Some (Inr [])"
  by code_simp

subsection \<open>The paragraph scenario\<close>

text \<open>
  Claim C9, as stated: the three-paragraph text chunked by the paragraph strategy with
  \<open>chunk_size = 80\<close> gives exactly two chunks. It gives one.
\<close>

theorem paragraph_scenario_not_two_chunks:
  "length (ParagraphChunker_chunk_text 80
     ''Paragraph one.\<newline>\<newline>Paragraph two is longer and should still fit.\<newline>\<newline>Paragraph three.''
     None) \<noteq> 2"
  by code_simp

text \<open>
  Claim C9, amended: the scenario gives exactly one chunk, whose text is the whole
  whitespace-normalized input (77 characters, all three paragraphs): normalization
  turns the blank lines into single spaces, and the text stays within \<open>chunk_size\<close>.
\<close>

theorem paragraph_scenario_one_chunk:
  "ChunkingService_chunk_text
     ''Paragraph one.\<newline>\<newline>Paragraph two is longer and should still fit.\<newline>\<newline>Paragraph three.''
     PARAGRAPH 80 100 None =
   Some (Inr [\<lparr>ctext = ''Paragraph one. Paragraph two is longer and should still fit. Paragraph three.'',
               cindex = 0, start_position = 0, end_position = 77, cmetadata = []\<rparr>])"
  by code_simp

section \<open>Properties of the fusion\<close>

subsection \<open>Insertion-ordered dictionaries\<close>

lemma map_fst_dict_upd:
  "map fst (dict_upd k f d) = (if k \<in> fst ` set d then map fst d else map fst d @ [k])"
  by (induction d) (force+)

lemma distinct_dict_upd: "distinct (map fst d) \<Longrightarrow> distinct (map fst (dict_upd k f d))"
  by (simp add: map_fst_dict_upd)

lemma map_of_dict_upd:
  "distinct (map fst d) \<Longrightarrow> map_of (dict_upd k f d) = (map_of d)(k \<mapsto> f (map_of d k))"
  by (induction d) (auto simp: fun_eq_iff map_of_eq_None_iff[symmetric] simp del: map_of_eq_None_iff)

subsection \<open>Grouping by collection\<close>

lemma group_step_distinct: "distinct (map fst d) \<Longrightarrow> distinct (map fst (group_step d c))"
  by (simp add: group_step_def distinct_dict_upd)

lemma foldl_group_step:
  "distinct (map fst d) \<Longrightarrow>
   distinct (map fst (foldl group_step d chunks)) \<and>
   (\<forall>col. map_of (foldl group_step d chunks) col =
      (if map_of d col = None \<and> filter (\<lambda>c. collection_id c = col) chunks = [] then None
       else Some ((case map_of d col of None \<Rightarrow> [] | Some cs \<Rightarrow> cs)
                  @ filter (\<lambda>c. collection_id c = col) chunks)))"
proof (induction chunks arbitrary: d)
  case Nil
  then show ?case by (auto split: option.splits)
next
  case (Cons c chunks)
  have d': "distinct (map fst (group_step d c))" using Cons.prems by (rule group_step_distinct)
  have m: "map_of (group_step d c) = (map_of d)(collection_id c \<mapsto> (case map_of d (collection_id c) of None \<Rightarrow> [] | Some cs \<Rightarrow> cs) @ [c])"
    using Cons.prems by (simp add: group_step_def map_of_dict_upd)
  from Cons.IH[OF d'] show ?case
    by (auto simp: m split: option.splits)
qed

lemma group_by_collection_distinct: "distinct (map fst (group_by_collection chunks))"
  using foldl_group_step[of "[]" chunks] by (simp add: group_by_collection_def)

lemma group_by_collection_map_of:
  "map_of (group_by_collection chunks) col =
     (if filter (\<lambda>c. collection_id c = col) chunks = [] then None
      else Some (filter (\<lambda>c. collection_id c = col) chunks))"
  using foldl_group_step[of "[]" chunks] by (simp add: group_by_collection_def)

lemma group_by_collection_keys:
  "fst ` set (group_by_collection chunks) = collection_id ` set chunks"
proof -
  have "fst ` set (group_by_collection chunks) = dom (map_of (group_by_collection chunks))"
    by (simp add: dom_map_of_conv_image_fst)
  also have "\<dots> = collection_id ` set chunks"
    by (auto simp: dom_def group_by_collection_map_of filter_empty_conv)
  finally show ?thesis .
qed

lemma group_by_collection_member:
  "(col, cs) \<in> set (group_by_collection chunks) \<Longrightarrow>
   cs = filter (\<lambda>c. collection_id c = col) chunks"
  using group_by_collection_distinct[of chunks] group_by_collection_map_of[of chunks col]
  by (auto split: if_splits)

lemma keys_dict_upd: "fst ` set (dict_upd k f d) = insert k (fst ` set d)"
  using arg_cong[OF map_fst_dict_upd[of k f d], of set] by auto

subsection \<open>Accumulation of the fused scores\<close>

lemma rrf_step_Inr:
  assumes "rrf_step k s rc = Inr s'" and "distinct (map fst s)"
  shows "distinct (map fst s') \<and>
         score_of s' cid = score_of s cid + rrf_contribution k cid rc \<and>
         fst ` set s' = insert (chunk_id (snd rc)) (fst ` set s)"
proof -
  obtain rnk c where rc: "rc = (rnk, c)" by (cases rc)
  let ?f = "case_option (c, 1 / (k + of_nat rnk)) (\<lambda>(c0, sc). (c0, sc + 1 / (k + of_nat rnk)))"
  from assms(1) have s': "s' = dict_upd (chunk_id c) ?f s"
    by (auto simp: rrf_step_def rc split: if_splits)
  have 1: "distinct (map fst s')"
    using assms(2) by (simp add: s' distinct_dict_upd)
  have 2: "score_of s' cid = score_of s cid + rrf_contribution k cid rc"
    using assms(2)
    by (auto simp: s' score_of_def rrf_contribution_def rc map_of_dict_upd split: option.splits)
  have 3: "fst ` set s' = insert (chunk_id (snd rc)) (fst ` set s)"
    by (simp add: s' keys_dict_upd rc)
  from 1 2 3 show ?thesis by blast
qed

lemma fold_rrf_step:
  assumes "fold_err (rrf_step k) rcs s = Inr s'" and "distinct (map fst s)"
  shows "distinct (map fst s') \<and>
         score_of s' cid = score_of s cid + (\<Sum>rc\<leftarrow>rcs. rrf_contribution k cid rc) \<and>
         fst ` set s' = fst ` set s \<union> chunk_id ` snd ` set rcs"
  using assms
proof (induction rcs arbitrary: s)
  case Nil
  then show ?case by simp
next
  case (Cons rc rcs)
  from Cons.prems(1) obtain s1 where s1: "rrf_step k s rc = Inr s1"
    and rest: "fold_err (rrf_step k) rcs s1 = Inr s'"
    by (auto split: sum.splits)
  from rrf_step_Inr[OF s1 Cons.prems(2), of cid] Cons.IH[OF rest] show ?case
    by auto
qed

lemma snd_set_ranked: "snd ` set (ranked cs) = set cs"
proof -
  have "snd ` set (ranked cs) = set (map snd (ranked cs))"
    by simp
  also have "\<dots> = set cs"
    by (simp only: ranked_def map_snd_enumerate sorted_desc_def set_sort)
  finally show ?thesis .
qed

lemma fold_rrf_collection:
  assumes "fold_err (rrf_collection k) gs s = Inr s'" and "distinct (map fst s)"
  shows "distinct (map fst s') \<and>
         score_of s' cid =
           score_of s cid + (\<Sum>g\<leftarrow>gs. \<Sum>rc\<leftarrow>ranked (snd g). rrf_contribution k cid rc) \<and>
         fst ` set s' = fst ` set s \<union> chunk_id ` (\<Union>g\<in>set gs. set (snd g))"
  using assms
proof (induction gs arbitrary: s)
  case Nil
  then show ?case by simp
next
  case (Cons g gs)
  from Cons.prems(1) obtain s1 where s0: "rrf_collection k s g = Inr s1"
    and rest: "fold_err (rrf_collection k) gs s1 = Inr s'"
    by (auto split: sum.splits)
  from s0 have s1: "fold_err (rrf_step k) (ranked (snd g)) s = Inr s1"
    by (simp add: rrf_collection_def)
  have r: "snd ` set (ranked (snd g)) = set (snd g)"
    by (rule snd_set_ranked)
  from fold_rrf_step[OF s1 Cons.prems(2), of cid] Cons.IH[OF rest] r show ?case
    by auto
qed

lemma sum_over_groups:
  fixes F :: "RetrievedChunk list \<Rightarrow> rat"
  shows "(\<Sum>g\<leftarrow>group_by_collection chunks. F (snd g)) =
   (\<Sum>col\<leftarrow>collections_of chunks. F (filter (\<lambda>c. collection_id c = col) chunks))"
proof -
  let ?G = "group_by_collection chunks"
  let ?H = "\<lambda>col. F (filter (\<lambda>c. collection_id c = col) chunks)"
  have "map (\<lambda>g. F (snd g)) ?G = map (\<lambda>g. ?H (fst g)) ?G"
    by (rule map_cong) (auto dest: group_by_collection_member)
  then have "(\<Sum>g\<leftarrow>?G. F (snd g)) = sum_list (map (\<lambda>g. ?H (fst g)) ?G)"
    by (rule arg_cong)
  also have "\<dots> = sum_list (map ?H (map fst ?G))"
    by (simp add: comp_def)
  also have "\<dots> = sum ?H (set (map fst ?G))"
    by (rule sum_list_distinct_conv_sum_set) (rule group_by_collection_distinct)
  also have "\<dots> = sum ?H (set (collections_of chunks))"
    by (simp add: group_by_collection_keys collections_of_def)
  also have "\<dots> = sum_list (map ?H (collections_of chunks))"
    by (rule sum_list_distinct_conv_sum_set[symmetric]) (simp add: collections_of_def)
  finally show ?thesis .
qed

lemma group_by_collection_union:
  "(\<Union>g\<in>set (group_by_collection chunks). set (snd g)) = set chunks"
proof (intro set_eqI iffI)
  fix x
  assume "x \<in> (\<Union>g\<in>set (group_by_collection chunks). set (snd g))"
  then obtain col cs where "(col, cs) \<in> set (group_by_collection chunks)" and "x \<in> set cs"
    by auto
  then show "x \<in> set chunks"
    by (auto dest!: group_by_collection_member)
next
  fix x
  assume x: "x \<in> set chunks"
  let ?cs = "filter (\<lambda>c. collection_id c = collection_id x) chunks"
  from x have "x \<in> set ?cs" by simp
  then have "?cs \<noteq> []" by (metis empty_iff empty_set)
  then have "map_of (group_by_collection chunks) (collection_id x) = Some ?cs"
    by (simp add: group_by_collection_map_of)
  then have "(collection_id x, ?cs) \<in> set (group_by_collection chunks)"
    by (rule map_of_SomeD)
  with \<open>x \<in> set ?cs\<close> show "x \<in> (\<Union>g\<in>set (group_by_collection chunks). set (snd g))"
    by force
qed

lemma rrf_scores_Inr:
  assumes "rrf_scores k chunks = Inr scores"
  shows "distinct (map fst scores)"
    and "fst ` set scores = chunk_id ` set chunks"
    and "score_of scores cid = fused_score_spec k chunks cid"
proof -
  note f = fold_rrf_collection[OF assms[unfolded rrf_scores_def], of cid, simplified]
  show "distinct (map fst scores)" using f by simp
  have "(\<Union>g\<in>set (group_by_collection chunks). set (snd g)) = set chunks"
    by (rule group_by_collection_union)
  then show "fst ` set scores = chunk_id ` set chunks" using f by simp
  show "score_of scores cid = fused_score_spec k chunks cid"
    using f by (simp add: score_of_def fused_score_spec_def sum_over_groups[where F = "\<lambda>cs. \<Sum>rc\<leftarrow>ranked cs. rrf_contribution k cid rc"])
qed

lemma dict_upd_member:
  "(a, v) \<in> set (dict_upd k f d) \<Longrightarrow>
   (a, v) \<in> set d \<or> (a = k \<and> (v = f None \<or> (\<exists>v0. (k, v0) \<in> set d \<and> v = f (Some v0))))"
  by (induction d) (auto split: if_splits)

lemma rrf_step_ids:
  assumes "rrf_step k s rc = Inr s'" and "\<forall>(cid, c, sc)\<in>set s. chunk_id c = cid"
  shows "\<forall>(cid, c, sc)\<in>set s'. chunk_id c = cid"
proof -
  obtain rnk c where rc: "rc = (rnk, c)" by (cases rc)
  let ?f = "case_option (c, 1 / (k + of_nat rnk)) (\<lambda>(c0, sc). (c0, sc + 1 / (k + of_nat rnk)))"
  from assms(1) have s': "s' = dict_upd (chunk_id c) ?f s"
    by (auto simp: rrf_step_def rc split: if_splits)
  show ?thesis
    unfolding s' using assms(2) by (auto dest!: dict_upd_member)
qed

lemma fold_rrf_step_ids:
  assumes "fold_err (rrf_step k) rcs s = Inr s'" and "\<forall>(cid, c, sc)\<in>set s. chunk_id c = cid"
  shows "\<forall>(cid, c, sc)\<in>set s'. chunk_id c = cid"
  using assms
proof (induction rcs arbitrary: s)
  case Nil
  then show ?case by simp
next
  case (Cons rc rcs)
  from Cons.prems(1) obtain s1 where s1: "rrf_step k s rc = Inr s1"
    and rest: "fold_err (rrf_step k) rcs s1 = Inr s'"
    by (auto split: sum.splits)
  from Cons.IH[OF rest rrf_step_ids[OF s1 Cons.prems(2)]] show ?case .
qed

lemma fold_rrf_collection_ids:
  assumes "fold_err (rrf_collection k) gs s = Inr s'" and "\<forall>(cid, c, sc)\<in>set s. chunk_id c = cid"
  shows "\<forall>(cid, c, sc)\<in>set s'. chunk_id c = cid"
  using assms
proof (induction gs arbitrary: s)
  case Nil
  then show ?case by simp
next
  case (Cons g gs)
  from Cons.prems(1) obtain s1 where s0: "rrf_collection k s g = Inr s1"
    and rest: "fold_err (rrf_collection k) gs s1 = Inr s'"
    by (auto split: sum.splits)
  from s0 have s1: "fold_err (rrf_step k) (ranked (snd g)) s = Inr s1"
    by (simp add: rrf_collection_def)
  from Cons.IH[OF rest fold_rrf_step_ids[OF s1 Cons.prems(2)]] show ?case .
qed

text \<open>No division by zero occurs when \<open>rrf_k > -1\<close>, since ranks start at 1.\<close>

lemma fold_rrf_step_total:
  "\<forall>rc\<in>set rcs. k + of_nat (fst rc) \<noteq> 0 \<Longrightarrow> \<exists>s'. fold_err (rrf_step k) rcs s = Inr s'"
  by (induction rcs arbitrary: s) (auto simp: rrf_step_def split: prod.splits)

lemma ranked_positive: "rc \<in> set (ranked cs) \<Longrightarrow> 1 \<le> fst rc"
  by (auto simp: ranked_def in_set_enumerate_eq)

lemma fold_rrf_collection_total:
  assumes "- 1 < k"
  shows "\<exists>s'. fold_err (rrf_collection k) gs s = Inr s'"
proof (induction gs arbitrary: s)
  case Nil
  then show ?case by simp
next
  case (Cons g gs)
  have "\<forall>rc\<in>set (ranked (snd g)). k + of_nat (fst rc) \<noteq> 0"
  proof
    fix rc assume "rc \<in> set (ranked (snd g))"
    then have "1 \<le> fst rc" by (rule ranked_positive)
    then have "(1::rat) \<le> of_nat (fst rc)" by simp
    with assms show "k + of_nat (fst rc) \<noteq> 0" by linarith
  qed
  then obtain s1 where "fold_err (rrf_step k) (ranked (snd g)) s = Inr s1"
    using fold_rrf_step_total by blast
  with Cons.IH[of s1] show ?case
    by (simp add: rrf_collection_def)
qed

lemma rrf_scores_total: "- 1 < k \<Longrightarrow> \<exists>scores. rrf_scores k chunks = Inr scores"
  unfolding rrf_scores_def by (rule fold_rrf_collection_total)

subsection \<open>The selection loop\<close>

lemma select_chunks_spec:
  "select_chunks m cs sel tot = (sel', tot') \<Longrightarrow>
   \<exists>n\<le>length cs. sel' = sel @ take n cs \<and>
     tot' = tot + sum_list (map chunk_tokens (take n cs)) \<and>
     (n < length cs \<longrightarrow> m < tot' + chunk_tokens (cs ! n))"
proof (induction cs arbitrary: sel tot)
  case Nil
  then show ?case by simp
next
  case (Cons c cs)
  show ?case
  proof (cases "tot + chunk_tokens c \<le> m")
    case True
    with Cons.prems have "select_chunks m cs (sel @ [c]) (tot + chunk_tokens c) = (sel', tot')"
      by simp
    from Cons.IH[OF this] obtain n where n: "n \<le> length cs" "sel' = (sel @ [c]) @ take n cs"
      "tot' = tot + chunk_tokens c + sum_list (map chunk_tokens (take n cs))"
      "n < length cs \<longrightarrow> m < tot' + chunk_tokens (cs ! n)"
      by blast
    show ?thesis
      by (rule exI[of _ "Suc n"]) (use n in auto)
  next
    case False
    with Cons.prems show ?thesis
      by (intro exI[of _ 0]) auto
  qed
qed

lemma select_chunks_budget:
  "select_chunks m cs sel tot = (sel', tot') \<Longrightarrow> tot \<le> m \<Longrightarrow> tot' \<le> m"
  by (induction cs arbitrary: sel tot) (auto split: if_splits)

lemma sorted_desc_sorted: "sorted_wrt (\<lambda>a b. f b \<le> f a) (sorted_desc f xs)"
proof -
  have "sorted (map (\<lambda>x. - f x) (sort_key (\<lambda>x. - f x) xs))"
    by (rule sorted_sort_key)
  then show ?thesis
    by (simp add: sorted_desc_def sorted_map)
qed

lemma fused_ranking_Inr:
  assumes "fused_ranking k chunks = Inr ranking"
  shows "sorted_wrt (\<lambda>a b. snd b \<le> snd a) ranking"
  using assms sorted_desc_sorted[of snd]
  by (auto simp: fused_ranking_def split: sum.splits)

lemma merge_contexts_returns:
  assumes "- 1 < k"
  shows "\<exists>r. merge_contexts k chunks q m = Inr r"
proof -
  from rrf_scores_total[OF assms] obtain scores where "rrf_scores k chunks = Inr scores"
    by blast
  then show ?thesis
    by (simp add: merge_contexts_def fused_ranking_def split: prod.splits)
qed

lemma merge_contexts_Inr:
  assumes "merge_contexts k chunks q m = Inr r"
  obtains ranking where "fused_ranking k chunks = Inr ranking"
    and "select_chunks m (map fst ranking) [] 0 = (selected_chunks r, total_tokens r)"
  using assms by (auto simp: merge_contexts_def split: sum.splits prod.splits)

text \<open>With a negative budget the first candidate already exceeds it: nothing is
  selected and the total stays 0.\<close>

lemma select_chunks_over_budget:
  assumes "m < tot"
  shows "select_chunks m cs sel tot = (sel, tot)"
proof (cases cs)
  case Nil
  then show ?thesis by simp
next
  case (Cons c rest)
  have "0 \<le> chunk_tokens c"
    by (simp add: chunk_tokens_def)
  with assms have "\<not> tot + chunk_tokens c \<le> m"
    by linarith
  with Cons show ?thesis by simp
qed

lemma negative_budget_selects_nothing:
  assumes "merge_contexts k chunks q m = Inr r" and "m < 0"
  shows "selected_chunks r = [] \<and> total_tokens r = 0"
  using assms(1)
proof (rule merge_contexts_Inr)
  fix ranking
  assume "select_chunks m (map fst ranking) [] 0 = (selected_chunks r, total_tokens r)"
  with select_chunks_over_budget[OF assms(2), of "map fst ranking" "[]"] show ?thesis
    by simp
qed

text \<open>
  Claim C1, as stated, for any token budget: with \<open>max_tokens = -1\<close> and no chunk
  the result has \<open>total_tokens = 0\<close>, which is not at most \<open>max_tokens\<close>.
\<close>

theorem merge_contexts_negative_budget:
  "map_sum id (\<lambda>r. total_tokens r \<le> - 1) (merge_contexts default_rrf_k [] ''query'' (- 1))
     = Inr False"
  by code_simp

text \<open>
  Claim C1, amended: for every list of retrieved chunks and every non-negative token
  budget \<open>max_tokens\<close>, a result returned by \<open>merge_contexts\<close> has
  \<open>total_tokens \<le> max_tokens\<close>; \<open>total_tokens\<close> is the sum of
  \<open>len(content) // 4\<close> over the selected chunks; the selected chunks are the first
  \<open>n\<close> candidates in descending order of fused score, taken whole, and selection
  stops at the first candidate whose tokens would exceed the budget. A result is
  returned whenever \<open>rrf_k > -1\<close>.
\<close>

theorem merge_contexts_token_budget:
  "(- 1 < rrf_k \<longrightarrow> (\<exists>r. merge_contexts rrf_k chunks query max_tokens = Inr r)) \<and>
   (\<forall>r. merge_contexts rrf_k chunks query max_tokens = Inr r \<and> 0 \<le> max_tokens \<longrightarrow>
      total_tokens r \<le> max_tokens \<and>
      total_tokens r = (\<Sum>c\<leftarrow>selected_chunks r. int (length (content c)) div 4) \<and>
      (\<exists>ranking n.
         fused_ranking rrf_k chunks = Inr ranking \<and>
         sorted_wrt (\<lambda>a b. snd b \<le> snd a) ranking \<and>
         n \<le> length ranking \<and>
         selected_chunks r = take n (map fst ranking) \<and>
         (n < length ranking \<longrightarrow>
            max_tokens < total_tokens r + int (length (content (fst (ranking ! n)))) div 4)))"
proof (intro conjI impI allI)
  assume "- 1 < rrf_k"
  then show "\<exists>r. merge_contexts rrf_k chunks query max_tokens = Inr r"
    by (rule merge_contexts_returns)
next
  fix r
  assume a: "merge_contexts rrf_k chunks query max_tokens = Inr r \<and> 0 \<le> max_tokens"
  then obtain ranking where rk: "fused_ranking rrf_k chunks = Inr ranking"
    and sel: "select_chunks max_tokens (map fst ranking) [] 0 = (selected_chunks r, total_tokens r)"
    by (auto elim: merge_contexts_Inr)
  from select_chunks_budget[OF sel] a show "total_tokens r \<le> max_tokens"
    by simp
  from select_chunks_spec[OF sel] obtain n where n: "n \<le> length ranking"
    "selected_chunks r = take n (map fst ranking)"
    "total_tokens r = sum_list (map chunk_tokens (take n (map fst ranking)))"
    "n < length ranking \<longrightarrow> max_tokens < total_tokens r + chunk_tokens (map fst ranking ! n)"
    by auto
  from n(2,3) show "total_tokens r = (\<Sum>c\<leftarrow>selected_chunks r. int (length (content c)) div 4)"
    by (simp add: chunk_tokens_def[abs_def])
  show "\<exists>ranking n.
         fused_ranking rrf_k chunks = Inr ranking \<and>
         sorted_wrt (\<lambda>a b. snd b \<le> snd a) ranking \<and>
         n \<le> length ranking \<and>
         selected_chunks r = take n (map fst ranking) \<and>
         (n < length ranking \<longrightarrow>
            max_tokens < total_tokens r + int (length (content (fst (ranking ! n)))) div 4)"
    using rk fused_ranking_Inr[OF rk] n
    by (intro exI[of _ ranking] exI[of _ n]) (auto simp: chunk_tokens_def)
qed

theorem merge_contexts_token_budget_witness:
  "(- 1 :: rat) < default_rrf_k \<and> (0 :: int) \<le> 4 \<and>
   (\<exists>r. merge_contexts default_rrf_k example_chunks ''query'' 4 = Inr r \<and>
        total_tokens r \<le> 4 \<and>
        total_tokens r = (\<Sum>c\<leftarrow>selected_chunks r. int (length (content c)) div 4))"
proof -
  have k: "(- 1 :: rat) < default_rrf_k"
    by (simp add: default_rrf_k_def)
  note t = merge_contexts_token_budget [of default_rrf_k example_chunks "''query''" 4]
  from t k obtain r where r: "merge_contexts default_rrf_k example_chunks ''query'' 4 = Inr r"
    by blast
  with t have "total_tokens r \<le> 4 \<and>
        total_tokens r = (\<Sum>c\<leftarrow>selected_chunks r. int (length (content c)) div 4)"
    by simp
  with k r show ?thesis by auto
qed

subsection \<open>Ranks and fused scores\<close>

lemma ranked_ranks: "map fst (ranked cs) = [1 ..< Suc (length cs)]"
  by (simp add: ranked_def sorted_desc_def)

lemma ranked_sorted:
  "sorted_wrt (\<lambda>a b. similarity_score b \<le> similarity_score a) (map snd (ranked cs))"
  by (simp add: ranked_def sorted_desc_sorted)

text \<open>
  Claim C2. \<open>merge_contexts\<close> groups the chunks by collection, ranks each group
  from 1 by descending similarity score, and gives each distinct chunk id the sum over
  the collections of \<open>1 / (k_rrf + rank)\<close>: \<open>rrf_scores\<close> has one entry per
  chunk id of the input, holding a chunk of that id and the fused score of the
  specification. With the default \<open>k_rrf = 60\<close>, the chunk \<open>X\<close>, first in
  collection \<open>A\<close> and third in collection \<open>B\<close>, receives \<open>1/61 + 1/63\<close>, more
  than the \<open>1/61\<close> of \<open>Y\<close>, first in \<open>B\<close> only. (Scores are exact rationals
  here; the code computes them in floating point.)
\<close>

theorem rrf_fused_scores:
  "(- 1 < rrf_k \<longrightarrow> (\<exists>scores. rrf_scores rrf_k chunks = Inr scores)) \<and>
   (\<forall>scores. rrf_scores rrf_k chunks = Inr scores \<longrightarrow>
      distinct (map fst scores) \<and>
      fst ` set scores = chunk_id ` set chunks \<and>
      (\<forall>(cid, c, sc)\<in>set scores.
         chunk_id c = cid \<and> sc = fused_score_spec rrf_k chunks cid)) \<and>
   (\<forall>cs. map fst (ranked cs) = [1 ..< Suc (length cs)] \<and>
         sorted_wrt (\<lambda>a b. similarity_score b \<le> similarity_score a) (map snd (ranked cs))) \<and>
   map fst (ranked (filter (\<lambda>c. collection_id c = ''A'') example_chunks)) = [1] \<and>
   map (\<lambda>(rnk, c). (rnk, chunk_id c))
     (ranked (filter (\<lambda>c. collection_id c = ''B'') example_chunks))
     = [(1, ''Y''), (2, ''Z''), (3, ''X'')] \<and>
   map_sum id (map (\<lambda>(cid, c, sc). (cid, sc))) (rrf_scores default_rrf_k example_chunks)
     = Inr [(''X'', 1 / 61 + 1 / 63), (''Y'', 1 / 61), (''Z'', 1 / 62)] \<and>
   (1 / 61 :: rat) < 1 / 61 + 1 / 63"
proof (intro conjI impI allI)
  assume "- 1 < rrf_k"
  then show "\<exists>scores. rrf_scores rrf_k chunks = Inr scores"
    by (rule rrf_scores_total)
next
  fix scores
  assume a: "rrf_scores rrf_k chunks = Inr scores"
  show d: "distinct (map fst scores)"
    by (rule rrf_scores_Inr(1)[OF a])
  show "fst ` set scores = chunk_id ` set chunks"
    by (rule rrf_scores_Inr(2)[OF a])
  have ids: "\<forall>(cid, c, sc)\<in>set scores. chunk_id c = cid"
    by (rule fold_rrf_collection_ids[OF a[unfolded rrf_scores_def]]) simp
  show "\<forall>(cid, c, sc)\<in>set scores. chunk_id c = cid \<and> sc = fused_score_spec rrf_k chunks cid"
  proof (clarify, intro conjI)
    fix cid c sc
    assume m: "(cid, c, sc) \<in> set scores"
    with ids show "chunk_id c = cid" by auto
    from d m have "map_of scores cid = Some (c, sc)" by simp
    then have "score_of scores cid = sc" by (simp add: score_of_def)
    with rrf_scores_Inr(3)[OF a, of cid] show "sc = fused_score_spec rrf_k chunks cid" by simp
  qed
next
  fix cs
  show "map fst (ranked cs) = [1 ..< Suc (length cs)]"
    by (rule ranked_ranks)
  show "sorted_wrt (\<lambda>a b. similarity_score b \<le> similarity_score a) (map snd (ranked cs))"
    by (rule ranked_sorted)
next
  show "map fst (ranked (filter (\<lambda>c. collection_id c = ''A'') example_chunks)) = [1]"
    by code_simp
  show "map (\<lambda>(rnk, c). (rnk, chunk_id c))
     (ranked (filter (\<lambda>c. collection_id c = ''B'') example_chunks))
     = [(1, ''Y''), (2, ''Z''), (3, ''X'')]"
    by code_simp
  show "map_sum id (map (\<lambda>(cid, c, sc). (cid, sc))) (rrf_scores default_rrf_k example_chunks)
     = Inr [(''X'', 1 / 61 + 1 / 63), (''Y'', 1 / 61), (''Z'', 1 / 62)]"
    by code_simp
  show "(1 / 61 :: rat) < 1 / 61 + 1 / 63"
    by simp
qed

theorem rrf_fused_scores_witness:
  "(- 1 :: rat) < default_rrf_k \<and>
   (\<exists>scores. rrf_scores default_rrf_k example_chunks = Inr scores \<and>
      map fst scores = [''X'', ''Y'', ''Z''] \<and>
      (\<forall>(cid, c, sc)\<in>set scores.
         chunk_id c = cid \<and> sc = fused_score_spec default_rrf_k example_chunks cid)) \<and>
   fused_score_spec default_rrf_k example_chunks ''X'' = 1 / 61 + 1 / 63"
proof -
  have k: "(- 1 :: rat) < default_rrf_k"
    by (simp add: default_rrf_k_def)
  note t = rrf_fused_scores [of default_rrf_k example_chunks]
  from t have t1: "- 1 < default_rrf_k \<longrightarrow>
      (\<exists>scores. rrf_scores default_rrf_k example_chunks = Inr scores)"
    by (rule conjunct1)
  from t have t2: "\<forall>scores. rrf_scores default_rrf_k example_chunks = Inr scores \<longrightarrow>
      distinct (map fst scores) \<and>
      fst ` set scores = chunk_id ` set example_chunks \<and>
      (\<forall>(cid, c, sc)\<in>set scores.
         chunk_id c = cid \<and> sc = fused_score_spec default_rrf_k example_chunks cid)"
    by (rule conjunct1[OF conjunct2])
  from t1 k have "\<exists>scores. rrf_scores default_rrf_k example_chunks = Inr scores"
    by (rule mp)
  then obtain scores where s: "rrf_scores default_rrf_k example_chunks = Inr scores"
    by (rule exE)
  have "map_sum id (map (\<lambda>(cid, c, sc). (cid, sc))) (rrf_scores default_rrf_k example_chunks)
     = Inr [(''X'', 1 / 61 + 1 / 63), (''Y'', 1 / 61), (''Z'', 1 / 62)]"
    by code_simp
  then have "map (\<lambda>(cid, c, sc). (cid, sc)) scores =
      [(''X'', 1 / 61 + 1 / 63), (''Y'', 1 / 61), (''Z'', 1 / 62)]"
    by (simp add: s)
  then have "map fst (map (\<lambda>(cid, c, sc). (cid, sc)) scores) = [''X'', ''Y'', ''Z'']"
    by simp
  then have keys: "map fst scores = [''X'', ''Y'', ''Z'']"
    by (simp add: comp_def case_prod_unfold)
  from t2 s have "distinct (map fst scores) \<and>
      fst ` set scores = chunk_id ` set example_chunks \<and>
      (\<forall>(cid, c, sc)\<in>set scores.
         chunk_id c = cid \<and> sc = fused_score_spec default_rrf_k example_chunks cid)"
    by (elim allE impE)
  then have b: "\<forall>(cid, c, sc)\<in>set scores.
         chunk_id c = cid \<and> sc = fused_score_spec default_rrf_k example_chunks cid"
    by (elim conjE)
  have x: "fused_score_spec default_rrf_k example_chunks ''X'' = 1 / 61 + 1 / 63"
    by code_simp
  from k s keys b x show ?thesis
    by (intro conjI exI[of _ scores])
qed

section \<open>Properties of the retrieval\<close>

lemma search_collections_propagates:
  assumes "cid \<in> set cids"
    and "client (''knowledge_collection_'' @ cid) (query_embedding request) (vs_top_k request)
           (score_threshold request) (search_filter request) = Inl e"
  shows "\<exists>e'. search_collections client request cids all_chunks = Inl e'"
  using assms
  by (induction cids arbitrary: all_chunks) (auto split: sum.splits)

lemma vector_search_propagates:
  assumes "cid \<in> set (vs_collection_ids request)"
    and "client (''knowledge_collection_'' @ cid) (query_embedding request) (vs_top_k request)
           (score_threshold request) (search_filter request) = Inl e"
  shows "\<exists>e'. vector_search client request = Inl e'"
  using search_collections_propagates
          [of cid "vs_collection_ids request" client request e "[]"] assms
  by (auto simp: vector_search_def)

lemma search_each_concat:
  "search_each vs query_vec lmt thr flt cids all_results =
   all_results @
   concat (map (\<lambda>cid. case search_similar_chunks vs query_vec cid lmt thr flt of
                         Inl e \<Rightarrow> [] | Inr results \<Rightarrow> results) cids)"
  by (induction cids arbitrary: all_results) (auto split: sum.splits)

text \<open>
  Claim C7. A collection whose search errors is claimed to contribute an empty list
  while the search returns the results of the other collections, so that fusion
  proceeds. \<open>FileVectorService.search_across_collections\<close> does that (its
  \<open>try\<close> stands inside the loop). \<open>RAGService.vector_search\<close>, whose result is
  what \<open>merge_contexts\<close> fuses, does not: its \<open>try\<close> encloses the loop and re-raises,
  so with collections \<open>A\<close> and \<open>B\<close> and a failing search of \<open>A\<close> the whole
  search raises, and a streamed query ends with the \<open>error\<close> event before fusion.
\<close>

theorem failed_collection_fails_vector_search:
  "vector_search failing_qdrant example_search_request = Inl (OtherError ''connection refused'') \<and>
   search_across_collections failing_vector_service [] [''A'', ''B''] 10 0 None =
     [\<lparr>vr_id = ''c1'', vr_score = 9 / 10, vr_payload = []\<rparr>] \<and>
   process_streaming_rag_request
     \<lparr>embeddings_create = (\<lambda>t m. Inr []), qdrant_search = failing_qdrant,
      chat_stream = (\<lambda>m p. Inr ([], None))\<rparr>
     \<lparr>cfg_rrf_k = 60, cfg_max_context_tokens = 8000, cfg_default_model = ''gpt-4''\<rparr>
     \<lparr>rq_query = ''q'', rq_collection_ids = [''A'', ''B''], rq_top_k = 5\<rparr> =
     [status_event ''generating_embedding'', status_event ''searching_vectors'',
      error_event (OtherError ''connection refused'')]"
  by code_simp

section \<open>Properties of the streaming generator\<close>

lemma stream_shape_error: "stream_shape (Some e) [error_event e]"
  unfolding stream_shape_def
  by (rule exI[of _ "[]"], rule exI[of _ "[]"], rule exI[of _ "[error_event e]"]) simp

lemma stream_shape_tail:
  "stream_shape failure (map content_event contents @
     (case failure of Some e \<Rightarrow> [error_event e] | None \<Rightarrow> [metadata_event a b c, done_event]))"
  unfolding stream_shape_def
  by (rule exI[of _ "[]"], rule exI[of _ contents],
      rule exI[of _ "case failure of Some e \<Rightarrow> [error_event e] | None \<Rightarrow> [metadata_event a b c, done_event]"])
     (auto split: option.splits)

lemma stream_shape_status:
  assumes "stream_shape failure tr"
  shows "stream_shape failure (status_event s # tr)"
proof -
  from assms obtain pre contents fin where
    tr: "tr = pre @ map content_event contents @ fin"
    and pre: "list_all (\<lambda>ev. sc_type ev = ''status'' \<or> sc_type ev = ''source'') pre"
    and fin: "(case failure of
           None \<Rightarrow> (\<exists>a b c. fin = [metadata_event a b c, done_event])
         | Some e \<Rightarrow> fin = [error_event e])"
    unfolding stream_shape_def by blast
  show ?thesis
    unfolding stream_shape_def
    by (rule exI[of _ "status_event s # pre"], rule exI[of _ contents], rule exI[of _ fin])
       (use tr pre fin in \<open>simp add: status_event_def\<close>)
qed

lemma stream_shape_sources:
  assumes "stream_shape failure tr"
  shows "stream_shape failure (map source_event srcs @ tr)"
proof -
  from assms obtain pre contents fin where
    tr: "tr = pre @ map content_event contents @ fin"
    and pre: "list_all (\<lambda>ev. sc_type ev = ''status'' \<or> sc_type ev = ''source'') pre"
    and fin: "(case failure of
           None \<Rightarrow> (\<exists>a b c. fin = [metadata_event a b c, done_event])
         | Some e \<Rightarrow> fin = [error_event e])"
    unfolding stream_shape_def by blast
  show ?thesis
    unfolding stream_shape_def
    by (rule exI[of _ "map source_event srcs @ pre"], rule exI[of _ contents], rule exI[of _ fin])
       (use tr pre fin in \<open>auto simp: source_event_def list_all_iff\<close>)
qed

lemma process_streaming_shape:
  "stream_shape (stage_failure sv cfg request) (process_streaming_rag_request sv cfg request)"
  unfolding process_streaming_rag_request_def stage_failure_def
  by (auto split: sum.splits prod.splits
        intro!: stream_shape_status stream_shape_sources stream_shape_error stream_shape_tail)

lemma stream_shape_terminal:
  assumes "stream_shape failure tr"
  shows "filter is_terminal tr = [last tr] \<and>
         last tr = (case failure of None \<Rightarrow> done_event | Some e \<Rightarrow> error_event e)"
proof -
  from assms obtain pre contents fin where
    tr: "tr = pre @ map content_event contents @ fin"
    and pre: "list_all (\<lambda>ev. sc_type ev = ''status'' \<or> sc_type ev = ''source'') pre"
    and fin: "(case failure of
           None \<Rightarrow> (\<exists>a b c. fin = [metadata_event a b c, done_event])
         | Some e \<Rightarrow> fin = [error_event e])"
    unfolding stream_shape_def by blast
  have 1: "filter is_terminal pre = []"
    using pre by (auto simp: filter_empty_conv list_all_iff is_terminal_def)
  have 2: "filter is_terminal (map content_event contents) = []"
    by (auto simp: filter_empty_conv is_terminal_def content_event_def)
  show ?thesis
  proof (cases failure)
    case None
    with fin obtain a b c where "fin = [metadata_event a b c, done_event]" by auto
    with 1 2 None show ?thesis
      by (simp add: tr is_terminal_def metadata_event_def done_event_def)
  next
    case (Some e)
    with fin have "fin = [error_event e]" by simp
    with 1 2 Some show ?thesis
      by (simp add: tr is_terminal_def error_event_def)
  qed
qed

text \<open>
  Claim C3. Every invocation of the streaming generator yields exactly one terminal
  event (\<open>done\<close> or \<open>error\<close>), and it is the last event: the \<open>done\<close> event,
  after the content events and the metadata event, when no stage fails, and the
  \<open>error\<close> event of the first failure otherwise. (The completion stream is taken to
  be finite, and a failure is an \<open>Exception\<close>, which the handler catches.)
\<close>

theorem streaming_exactly_one_terminal_event:
  "filter is_terminal (process_streaming_rag_request sv cfg request) =
     [last (process_streaming_rag_request sv cfg request)] \<and>
   last (process_streaming_rag_request sv cfg request) =
     (case stage_failure sv cfg request of None \<Rightarrow> done_event | Some e \<Rightarrow> error_event e) \<and>
   (\<exists>pre contents fin.
      process_streaming_rag_request sv cfg request = pre @ map content_event contents @ fin \<and>
      list_all (\<lambda>ev. sc_type ev = ''status'' \<or> sc_type ev = ''source'') pre \<and>
      (case stage_failure sv cfg request of
         None \<Rightarrow> (\<exists>a b c. fin = [metadata_event a b c, done_event])
       | Some e \<Rightarrow> fin = [error_event e]))"
proof -
  note sh = process_streaming_shape [of sv cfg request]
  from stream_shape_terminal [OF sh] sh show ?thesis
    unfolding stream_shape_def by simp
qed

section \<open>Properties of the embedding service\<close>

lemma map_err_total:
  "(\<And>x. x \<in> set xs \<Longrightarrow> f x = Inr (g x)) \<Longrightarrow> map_err f xs = Inr (map g xs)"
  by (induction xs) auto

lemma embed_text_returns: "embed_text e t = Inr (embed_text_result e t)"
  by (simp add: embed_text_def embed_text_result_def split: sum.splits)

lemma embed_text_sequentially_returns:
  "embed_text_sequentially e texts = Inr (map (embed_text_result e) texts)"
  unfolding embed_text_sequentially_def
  by (rule map_err_total) (rule embed_text_returns)

lemma embed_one_agrees:
  "success (embed_one e c) = res_success (embed_text_result e (ctext c)) \<and>
   embedding (embed_one e c) = res_embedding (embed_text_result e (ctext c)) \<and>
   chunk.truncate (embed_one e c) = c"
  by (simp add: embed_one_def embed_text_result_def enrich_def chunk.truncate_def
      split: sum.splits)

lemma enrich_all_shape:
  "enrich_all e cs embeddings i acc = Inr rs \<Longrightarrow>
   length rs = length acc + length cs \<and>
   map chunk.truncate rs = map chunk.truncate acc @ cs"
  by (induction cs arbitrary: i acc)
     (auto simp: enrich_def chunk.truncate_def split: if_splits)

lemma embed_chunks_returns:
  "\<exists>rs. embed_chunks e chunks = Inr rs \<and> length rs = length chunks \<and>
        map chunk.truncate rs = chunks"
proof (cases "chunks = []")
  case True
  then show ?thesis by (simp add: embed_chunks_def)
next
  case False
  show ?thesis
  proof (cases "embed_batch e chunks")
    case (Inl ex)
    have "map chunk.truncate (map (embed_one e) chunks) = chunks"
      by (induction chunks) (simp_all add: embed_one_agrees)
    with Inl False show ?thesis
      by (simp add: embed_chunks_def embed_chunks_individually_def)
  next
    case (Inr rs)
    then obtain embeddings where "enrich_all e chunks embeddings 0 [] = Inr rs"
      by (auto simp: embed_batch_def split: sum.splits)
    from enrich_all_shape[OF this] Inr False show ?thesis
      by (simp add: embed_chunks_def)
  qed
qed

text \<open>
  Claim C6. For every list of chunks, if the batch embedding fails (the body of the
  \<open>try\<close> of \<open>embed_chunks\<close> raises), \<open>embed_chunks\<close> returns the chunks in their
  order, each with the success flag and the embedding that \<open>embed_text\<close>, called
  sequentially on the chunks' texts, returns for its text. (The provider is a function
  of its input.)
\<close>

theorem batch_failure_falls_back_to_sequential:
  assumes "embed_batch e chunks = Inl ex"
  shows "\<exists>rs seq.
           embed_chunks e chunks = Inr rs \<and>
           embed_text_sequentially e (map ctext chunks) = Inr seq \<and>
           length rs = length chunks \<and>
           map chunk.truncate rs = chunks \<and>
           map success rs = map res_success seq \<and>
           map embedding rs = map res_embedding seq"
proof -
  let ?rs = "map (embed_one e) chunks"
  let ?seq = "map (embed_text_result e) (map ctext chunks)"
  have ne: "chunks \<noteq> []"
  proof
    assume "chunks = []"
    with assms show False
      by (cases e) (simp_all add: embed_batch_def)
  qed
  have 1: "embed_chunks e chunks = Inr ?rs"
    using assms ne by (simp add: embed_chunks_def embed_chunks_individually_def)
  have 2: "embed_text_sequentially e (map ctext chunks) = Inr ?seq"
    by (rule embed_text_sequentially_returns)
  have 3: "map chunk.truncate ?rs = chunks"
    by (induction chunks) (simp_all add: embed_one_agrees)
  have 4: "map success ?rs = map res_success ?seq"
    by (simp add: embed_one_agrees)
  have 5: "map embedding ?rs = map res_embedding ?seq"
    by (simp add: embed_one_agrees)
  from 1 2 3 4 5 show ?thesis
    by (intro exI[of _ ?rs] exI[of _ ?seq]) simp
qed

theorem batch_failure_falls_back_witness:
  "embed_batch example_embedder example_batch = Inl (ValueError ''Text cannot be empty'') \<and>
   (\<exists>rs seq.
      embed_chunks example_embedder example_batch = Inr rs \<and>
      embed_text_sequentially example_embedder (map ctext example_batch) = Inr seq \<and>
      map success rs = [True, False] \<and>
      map res_success seq = [True, False] \<and>
      map embedding rs = map res_embedding seq)"
proof -
  have h: "embed_batch example_embedder example_batch = Inl (ValueError ''Text cannot be empty'')"
    by code_simp
  from batch_failure_falls_back_to_sequential [OF h] obtain rs seq where
    rs: "embed_chunks example_embedder example_batch = Inr rs"
    and seq: "embed_text_sequentially example_embedder (map ctext example_batch) = Inr seq"
    and eq: "map success rs = map res_success seq" "map embedding rs = map res_embedding seq"
    by blast
  have "map_sum id (map res_success)
          (embed_text_sequentially example_embedder (map ctext example_batch))
        = Inr [True, False]"
    by code_simp
  with seq have s: "map res_success seq = [True, False]"
    by simp
  from h rs seq eq s show ?thesis
    by (intro conjI exI[of _ rs] exI[of _ seq]) simp_all
qed

lemma all_space_strip: "list_all is_space t \<Longrightarrow> strip t = []"
proof -
  assume "list_all is_space t"
  then have "dropWhile is_space t = []"
    by (simp add: list_all_iff)
  then show ?thesis
    unfolding strip_def by (simp only: rev.simps dropWhile.simps)
qed

lemma validate_text_blank:
  "list_all is_space t \<Longrightarrow> validate_text t = Inl (ValueError ''Text cannot be empty'')"
  by (simp add: validate_text_def all_space_strip)

lemma validate_text_error:
  "validate_text t = Inl ex \<Longrightarrow> ex = ValueError ''Text cannot be empty''"
  by (auto simp: validate_text_def Let_def split: if_splits)

lemma embedder_failure_message:
  "embedder_generate_embedding e t = Inl ex \<Longrightarrow> str_of_error ex \<noteq> []"
  by (cases e) (auto split: sum.splits list.splits dest!: validate_text_error)

lemma embedder_blank:
  "list_all is_space t \<Longrightarrow>
   embedder_generate_embedding e t = Inl (ValueError ''Text cannot be empty'')"
  by (cases e) (simp_all add: validate_text_blank)

text \<open>
  Claim C10. For every text \<open>embed_text\<close> returns a record and raises nothing; when
  the embedder fails the record has \<open>success = False\<close>, no embedding and a non-empty
  error string, and for an empty or whitespace-only text that string is the
  validator's \<open>Text cannot be empty\<close>. For every list of chunks \<open>embed_chunks\<close>
  returns one record per chunk, in order, and raises nothing.
\<close>

theorem embed_text_never_raises:
  "(\<exists>r. embed_text e t = Inr r \<and>
        (case embedder_generate_embedding e t of
           Inr v \<Rightarrow> res_success r \<and> res_embedding r = Some v \<and> res_error r = None
         | Inl ex \<Rightarrow>
             \<not> res_success r \<and> res_embedding r = None \<and>
             res_error r = Some (str_of_error ex) \<and> str_of_error ex \<noteq> [])) \<and>
   (list_all is_space t \<longrightarrow>
      embed_text e t =
        Inr \<lparr>res_embedding = None, res_model = get_model_name e,
             res_dimension = get_embedding_dimension e, res_text_length = length t,
             res_success = False, res_error = Some ''Text cannot be empty''\<rparr>) \<and>
   (\<exists>rs. embed_chunks e chunks = Inr rs \<and> length rs = length chunks \<and>
         map chunk.truncate rs = chunks)"
proof (intro conjI impI)
  show "\<exists>r. embed_text e t = Inr r \<and>
        (case embedder_generate_embedding e t of
           Inr v \<Rightarrow> res_success r \<and> res_embedding r = Some v \<and> res_error r = None
         | Inl ex \<Rightarrow>
             \<not> res_success r \<and> res_embedding r = None \<and>
             res_error r = Some (str_of_error ex) \<and> str_of_error ex \<noteq> [])"
    by (rule exI[of _ "embed_text_result e t"])
       (auto simp: embed_text_returns embed_text_result_def embedder_failure_message
          split: sum.splits)
next
  assume "list_all is_space t"
  then show "embed_text e t =
        Inr \<lparr>res_embedding = None, res_model = get_model_name e,
             res_dimension = get_embedding_dimension e, res_text_length = length t,
             res_success = False, res_error = Some ''Text cannot be empty''\<rparr>"
    by (simp add: embed_text_def embedder_blank)
next
  show "\<exists>rs. embed_chunks e chunks = Inr rs \<and> length rs = length chunks \<and>
         map chunk.truncate rs = chunks"
    by (rule embed_chunks_returns)
qed

theorem embed_text_never_raises_witness:
  "list_all is_space ''   '' \<and>
   embed_text example_embedder ''   '' =
     Inr \<lparr>res_embedding = None, res_model = ''mock-embedder'', res_dimension = 2,
          res_text_length = 3, res_success = False,
          res_error = Some ''Text cannot be empty''\<rparr> \<and>
   (\<exists>rs. embed_chunks example_embedder example_batch = Inr rs \<and> length rs = 2)"
proof -
  have b: "list_all is_space ''   ''"
    by (simp add: is_space_def)
  note t = embed_text_never_raises [of example_embedder "''   ''" example_batch]
  from t b have 1: "embed_text example_embedder ''   '' =
        Inr \<lparr>res_embedding = None, res_model = get_model_name example_embedder,
             res_dimension = get_embedding_dimension example_embedder,
             res_text_length = length ''   '',
             res_success = False, res_error = Some ''Text cannot be empty''\<rparr>"
    by (elim conjE impE)
  from t have 2: "\<exists>rs. embed_chunks example_embedder example_batch = Inr rs \<and>
      length rs = length example_batch \<and> map chunk.truncate rs = example_batch"
    by (elim conjE)
  from b 1 2 show ?thesis
    by (auto simp: example_embedder_def example_batch_def)
qed

section \<open>Properties of the ingestion pipeline\<close>

text \<open>The vector-storage step changes neither the status nor the error message.\<close>

lemma record_vector_ids_status:
  "record_vector_ids env ids st = (e, st') \<Longrightarrow>
   status st' = status st \<and> error_message st' = error_message st"
  by (induction env ids st rule: record_vector_ids.induct) (auto split: option.splits)

lemma vector_storage_try_status:
  "vector_storage_try env file successful st = (e, st') \<Longrightarrow>
   status st' = status st \<and> error_message st' = error_message st"
  by (auto simp: vector_storage_try_def split: option.splits sum.splits
        dest: record_vector_ids_status)

lemma vector_storage_step_status:
  "status (vector_storage_step env file successful st) = status st \<and>
   error_message (vector_storage_step env file successful st) = error_message st"
  by (auto simp: vector_storage_step_def split: prod.splits option.splits
        dest: vector_storage_try_status)

lemma collect_successful_cong:
  assumes "\<And>i. raises env' (UpdateChunkEmbedding i) = raises env (UpdateChunkEmbedding i)"
  shows "collect_successful env' enriched idxs acc = collect_successful env enriched idxs acc"
  by (induction idxs arbitrary: acc) (simp_all add: assms split: option.split)

lemma collect_successful_total:
  assumes "\<And>i. raises env (UpdateChunkEmbedding i) = None"
  shows "\<exists>s. collect_successful env enriched idxs acc = Inr s"
  by (induction idxs arbitrary: acc) (simp_all add: assms)

lemma same_outside_sites:
  assumes "same_outside_vector_storage env env'"
  shows "get_file_by_id env' = get_file_by_id env"
    and "extract_text env' = extract_text env"
    and "\<not> is_vector_site site \<Longrightarrow> raises env' site = raises env site"
  using assms by (auto simp: same_outside_vector_storage_def)

lemma embed_and_store_independent:
  assumes "same_outside_vector_storage env env'"
  shows "(case embed_and_store env' emb file chunks st of (e, s) \<Rightarrow> (e, status s, error_message s)) =
         (case embed_and_store env emb file chunks st of (e, s) \<Rightarrow> (e, status s, error_message s))"
proof -
  note s = same_outside_sites[OF assms]
  have c: "\<And>enriched idxs acc. collect_successful env' enriched idxs acc =
          collect_successful env enriched idxs acc"
    by (rule collect_successful_cong) (simp add: s(3))
  show ?thesis
    unfolding embed_and_store_def
    by (simp add: s c vector_storage_step_status split: sum.split option.split)
qed

lemma chunk_and_continue_independent:
  assumes "same_outside_vector_storage env env'"
  shows "outcome (chunk_and_continue env' emb strategy cs ov file extraction st) =
         outcome (chunk_and_continue env emb strategy cs ov file extraction st)"
  unfolding chunk_and_continue_def outcome_def
  using embed_and_store_independent[OF assms]
  by (simp add: same_outside_sites[OF assms] split: sum.split option.split)

lemma pipeline_try_independent:
  assumes "same_outside_vector_storage env env'"
  shows "outcome (pipeline_try env' emb strategy cs ov st) =
         outcome (pipeline_try env emb strategy cs ov st)"
  unfolding pipeline_try_def
  using chunk_and_continue_independent[OF assms]
  by (simp add: same_outside_sites[OF assms] outcome_def split: sum.split option.split)

lemma process_file_pipeline_independent:
  assumes "same_outside_vector_storage env env'"
  shows "outcome (process_file_pipeline env' emb strategy cs ov st) =
         outcome (process_file_pipeline env emb strategy cs ov st)"
proof -
  have f: "raises env' SetFailed = raises env SetFailed"
    by (simp add: same_outside_sites[OF assms])
  from pipeline_try_independent[OF assms, of emb strategy cs ov st]
  show ?thesis
    unfolding process_file_pipeline_def outcome_def f
    by (cases "pipeline_try env' emb strategy cs ov st";
        cases "pipeline_try env emb strategy cs ov st")
       (auto split: option.splits)
qed

lemma embed_and_store_normal:
  "embed_and_store env emb file chunks st = (None, s) \<Longrightarrow> status s = PROCESSED"
  by (auto simp: embed_and_store_def split: sum.splits option.splits)

lemma chunk_and_continue_normal:
  "chunk_and_continue env emb strategy cs ov file extraction st = Some (None, s) \<Longrightarrow>
   status s = PROCESSED"
  by (auto simp: chunk_and_continue_def split: sum.splits option.splits
        dest: embed_and_store_normal)

lemma pipeline_try_normal:
  assumes "pipeline_try env emb strategy cs ov st = Some (None, s)"
  shows "status s = status st \<or> status s = PROCESSED \<or>
         (\<exists>file extraction.
            get_file_by_id env = Inr (Some file) \<and>
            extract_text env (file_path file) (file_type file) = Inr extraction \<and>
            \<not> ex_success extraction)"
  using assms
  by (auto simp: pipeline_try_def split: sum.splits option.splits if_splits
        dest: chunk_and_continue_normal)

lemma embed_and_store_succeeds:
  assumes "\<forall>site. is_vector_site site \<or> raises env site = None"
  shows "\<exists>s. embed_and_store env emb file chunks st = (None, s) \<and> status s = PROCESSED"
proof -
  obtain enriched where e: "embed_chunks emb chunks = Inr enriched"
    using embed_chunks_returns[of emb chunks] by blast
  have "\<And>i. raises env (UpdateChunkEmbedding i) = None"
    using assms is_vector_site.simps by blast
  then obtain successful where
    c: "collect_successful env enriched [0 ..< length chunks] [] = Inr successful"
    using collect_successful_total by blast
  have p: "raises env SetProcessed = None"
    using assms is_vector_site.simps by blast
  show ?thesis
    by (simp add: embed_and_store_def e c p)
qed

lemma process_file_pipeline_succeeds:
  assumes "get_file_by_id env = Inr (Some file)"
    and "extract_text env (file_path file) (file_type file) = Inr extraction"
    and "ex_success extraction"
    and "ChunkingService_chunk_text (ex_text extraction) strategy cs ov
           (Some (ex_metadata extraction)) = Some (Inr chunks)"
    and nv: "\<forall>site. is_vector_site site \<or> raises env site = None"
  shows "\<exists>st'. process_file_pipeline env emb strategy cs ov st = Some (None, st') \<and>
               status st' = PROCESSED"
proof -
  have r: "raises env SetProcessing = None" "raises env UpdateExtractedText = None"
    "raises env CreateChunks = None"
    using nv is_vector_site.simps by blast+
  from embed_and_store_succeeds[OF nv, of emb "file" chunks "st\<lparr>status := PROCESSING\<rparr>"]
  obtain s where "embed_and_store env emb file chunks (st\<lparr>status := PROCESSING\<rparr>) = (None, s)"
    and "status s = PROCESSED"
    by blast
  then show ?thesis
    by (simp add: process_file_pipeline_def pipeline_try_def chunk_and_continue_def assms(1-4) r)
qed

lemma process_file_pipeline_failed:
  assumes "process_file_pipeline env emb strategy cs ov st = Some (esc, st')"
    and "status st' = FAILED" and "status st \<noteq> FAILED"
  shows "(\<exists>file extraction.
            get_file_by_id env = Inr (Some file) \<and>
            extract_text env (file_path file) (file_type file) = Inr extraction \<and>
            \<not> ex_success extraction) \<or>
         (\<exists>e s. pipeline_try env emb strategy cs ov st = Some (Some e, s))"
proof (cases "pipeline_try env emb strategy cs ov st")
  case None
  with assms(1) show ?thesis by (simp add: process_file_pipeline_def)
next
  case (Some r)
  obtain e s where r: "r = (e, s)" by (cases r)
  show ?thesis
  proof (cases e)
    case None
    with Some r assms(1) have "st' = s"
      by (simp add: process_file_pipeline_def)
    with pipeline_try_normal[OF Some[unfolded r None]] assms(2,3) show ?thesis
      by auto
  next
    case (Some ex)
    with \<open>pipeline_try env emb strategy cs ov st = Some r\<close> r show ?thesis by simp
  qed
qed

text \<open>
  The inner handler of step 4: an exception of the body of the inner \<open>try\<close> adds
  one line to the error log; a body that completes adds none. A refused or failing
  upsert is such an exception.
\<close>

lemma record_vector_ids_log:
  "record_vector_ids env ids st = (e, st') \<Longrightarrow> error_log st' = error_log st"
  by (induction env ids st rule: record_vector_ids.induct) (auto split: option.splits)

lemma vector_storage_try_log:
  "vector_storage_try env file successful st = (e, st') \<Longrightarrow> error_log st' = error_log st"
  by (auto simp: vector_storage_try_def split: option.splits sum.splits
        dest: record_vector_ids_log)

lemma vector_storage_step_logs:
  assumes "successful \<noteq> []"
    and "vector_storage_try env file successful st = (Some e, s)"
  shows "error_log (vector_storage_step env file successful st) =
           error_log st @ [''Failed to store embeddings in vector database: '' @ str_of_error e]"
  using assms vector_storage_try_log[OF assms(2)]
  by (simp add: vector_storage_step_def)

lemma vector_storage_step_silent:
  assumes "vector_storage_try env file successful st = (None, s)"
  shows "error_log (vector_storage_step env file successful st) = error_log st"
  using assms vector_storage_try_log[OF assms]
  by (simp add: vector_storage_step_def)

lemma vector_storage_try_upsert_raises:
  assumes "successful \<noteq> []"
    and "raises env GetVectorService = None" and "raises env EnsureCollection = None"
    and "upsert_points env = Inl e"
  shows "vector_storage_try env file successful st = (Some e, st)"
  using assms by (simp add: vector_storage_try_def store_chunk_embeddings_def)

lemma vector_storage_try_upsert_refused:
  assumes "successful \<noteq> []"
    and "raises env GetVectorService = None" and "raises env EnsureCollection = None"
    and "upsert_points env = Inr False"
  shows "vector_storage_try env file successful st =
           (Some (RuntimeError ''Failed to store embeddings in Qdrant''), st)"
  using assms by (simp add: vector_storage_try_def store_chunk_embeddings_def)

lemma process_file_pipeline_logs_vector_failure:
  assumes "get_file_by_id env = Inr (Some file)"
    and "extract_text env (file_path file) (file_type file) = Inr extraction"
    and "ex_success extraction"
    and "ChunkingService_chunk_text (ex_text extraction) strategy cs ov
           (Some (ex_metadata extraction)) = Some (Inr chunks)"
    and nv: "\<forall>site. is_vector_site site \<or> raises env site = None"
    and emb: "embed_chunks emb chunks = Inr enriched"
    and col: "collect_successful env enriched [0 ..< length chunks] [] = Inr successful"
    and ne: "successful \<noteq> []"
    and vt: "vector_storage_try env file successful (st\<lparr>status := PROCESSING\<rparr>) = (Some e, s)"
  shows "\<exists>st'. process_file_pipeline env emb strategy cs ov st = Some (None, st') \<and>
               status st' = PROCESSED \<and> error_message st' = error_message st \<and>
               error_log st' = error_log st @
                 [''Failed to store embeddings in vector database: '' @ str_of_error e]"
proof -
  have r: "raises env SetProcessing = None" "raises env UpdateExtractedText = None"
    "raises env CreateChunks = None" "raises env SetProcessed = None"
    using nv is_vector_site.simps by blast+
  let ?st1 = "st\<lparr>status := PROCESSING\<rparr>"
  let ?v = "vector_storage_step env file successful ?st1"
  have run: "process_file_pipeline env emb strategy cs ov st =
      Some (None, ?v\<lparr>status := PROCESSED\<rparr>)"
    by (simp add: process_file_pipeline_def pipeline_try_def chunk_and_continue_def
        embed_and_store_def assms(1-4) r emb col)
  have lg: "error_log ?v = error_log st @
      [''Failed to store embeddings in vector database: '' @ str_of_error e]"
    using vector_storage_step_logs[OF ne vt] by simp
  have em: "error_message ?v = error_message st"
    using vector_storage_step_status[of env "file" successful ?st1] by simp
  from run lg em show ?thesis
    by simp
qed

text \<open>
  Claim C5. Once extraction, chunking and embedding have completed, the status of the
  file becomes \<open>processed\<close> whatever the vector-storage step does: (1) two runs
  whose environments differ only inside the vector-storage step (the vector service,
  the collection, the upsert, the writes of the vector ids) end with the same status,
  error message and escaping exception, so an error of the vector store is caught and
  never makes the file \<open>failed\<close>; (2) when the file exists, extraction succeeds, the
  chunker returns and no call outside the vector-storage step raises, the run ends
  with status \<open>processed\<close>; (3) a run that ends with status \<open>failed\<close> had an
  extraction that reported failure, or an exception that reached the outer handler,
  which by (1) does not come from the vector-storage step; (4) in a run as in (2) with
  at least one embedded chunk, an exception \<open>e\<close> of the body of the inner \<open>try\<close>
  (storing the embeddings) is caught and logged: the run ends with status
  \<open>processed\<close>, the error message of the file untouched, and the line
  \<open>Failed to store embeddings in vector database: e\<close> appended to the error log.
\<close>

theorem vector_store_failure_keeps_processed:
  "(same_outside_vector_storage env env' \<longrightarrow>
      outcome (process_file_pipeline env' emb strategy cs ov st) =
      outcome (process_file_pipeline env emb strategy cs ov st)) \<and>
   (get_file_by_id env = Inr (Some file) \<and>
    extract_text env (file_path file) (file_type file) = Inr extraction \<and>
    ex_success extraction \<and>
    ChunkingService_chunk_text (ex_text extraction) strategy cs ov
      (Some (ex_metadata extraction)) = Some (Inr chunks) \<and>
    (\<forall>site. is_vector_site site \<or> raises env site = None) \<longrightarrow>
      (\<exists>st'. process_file_pipeline env emb strategy cs ov st = Some (None, st') \<and>
             status st' = PROCESSED)) \<and>
   (process_file_pipeline env emb strategy cs ov st = Some (esc, final) \<and>
    status final = FAILED \<and> status st \<noteq> FAILED \<longrightarrow>
      (\<exists>file extraction.
         get_file_by_id env = Inr (Some file) \<and>
         extract_text env (file_path file) (file_type file) = Inr extraction \<and>
         \<not> ex_success extraction) \<or>
      (\<exists>e s. pipeline_try env emb strategy cs ov st = Some (Some e, s))) \<and>
   (get_file_by_id env = Inr (Some file) \<and>
    extract_text env (file_path file) (file_type file) = Inr extraction \<and>
    ex_success extraction \<and>
    ChunkingService_chunk_text (ex_text extraction) strategy cs ov
      (Some (ex_metadata extraction)) = Some (Inr chunks) \<and>
    (\<forall>site. is_vector_site site \<or> raises env site = None) \<and>
    embed_chunks emb chunks = Inr enriched \<and>
    collect_successful env enriched [0 ..< length chunks] [] = Inr successful \<and>
    successful \<noteq> [] \<and>
    vector_storage_try env file successful (st\<lparr>status := PROCESSING\<rparr>) =
      (Some failure, after_try) \<longrightarrow>
      (\<exists>st'. process_file_pipeline env emb strategy cs ov st = Some (None, st') \<and>
             status st' = PROCESSED \<and> error_message st' = error_message st \<and>
             error_log st' = error_log st @
               [''Failed to store embeddings in vector database: '' @ str_of_error failure]))"
proof (intro conjI impI)
  assume "same_outside_vector_storage env env'"
  then show "outcome (process_file_pipeline env' emb strategy cs ov st) =
      outcome (process_file_pipeline env emb strategy cs ov st)"
    by (rule process_file_pipeline_independent)
next
  assume "get_file_by_id env = Inr (Some file) \<and>
    extract_text env (file_path file) (file_type file) = Inr extraction \<and>
    ex_success extraction \<and>
    ChunkingService_chunk_text (ex_text extraction) strategy cs ov
      (Some (ex_metadata extraction)) = Some (Inr chunks) \<and>
    (\<forall>site. is_vector_site site \<or> raises env site = None)"
  then show "\<exists>st'. process_file_pipeline env emb strategy cs ov st = Some (None, st') \<and>
             status st' = PROCESSED"
    by (elim conjE) (rule process_file_pipeline_succeeds)
next
  assume "process_file_pipeline env emb strategy cs ov st = Some (esc, final) \<and>
    status final = FAILED \<and> status st \<noteq> FAILED"
  then show "(\<exists>file extraction.
         get_file_by_id env = Inr (Some file) \<and>
         extract_text env (file_path file) (file_type file) = Inr extraction \<and>
         \<not> ex_success extraction) \<or>
      (\<exists>e s. pipeline_try env emb strategy cs ov st = Some (Some e, s))"
    by (elim conjE) (rule process_file_pipeline_failed)
next
  assume "get_file_by_id env = Inr (Some file) \<and>
    extract_text env (file_path file) (file_type file) = Inr extraction \<and>
    ex_success extraction \<and>
    ChunkingService_chunk_text (ex_text extraction) strategy cs ov
      (Some (ex_metadata extraction)) = Some (Inr chunks) \<and>
    (\<forall>site. is_vector_site site \<or> raises env site = None) \<and>
    embed_chunks emb chunks = Inr enriched \<and>
    collect_successful env enriched [0 ..< length chunks] [] = Inr successful \<and>
    successful \<noteq> [] \<and>
    vector_storage_try env file successful (st\<lparr>status := PROCESSING\<rparr>) =
      (Some failure, after_try)"
  then show "\<exists>st'. process_file_pipeline env emb strategy cs ov st = Some (None, st') \<and>
             status st' = PROCESSED \<and> error_message st' = error_message st \<and>
             error_log st' = error_log st @
               [''Failed to store embeddings in vector database: '' @ str_of_error failure]"
    by (elim conjE) (rule process_file_pipeline_logs_vector_failure)
qed

theorem vector_store_failure_keeps_processed_witness:
  "same_outside_vector_storage example_env (example_env\<lparr>upsert_points := Inr True\<rparr>) \<and>
   upsert_points example_env = Inl (OtherError ''connection refused'') \<and>
   outcome (process_file_pipeline example_env example_embedder RECURSIVE 1000 100 initial_state)
     = Some (None, PROCESSED, None) \<and>
   outcome (process_file_pipeline (example_env\<lparr>upsert_points := Inr True\<rparr>) example_embedder
              RECURSIVE 1000 100 initial_state)
     = Some (None, PROCESSED, None) \<and>
   outcome (process_file_pipeline db_failing_env example_embedder RECURSIVE 1000 100 initial_state)
     = Some (None, FAILED, Some ''Processing pipeline failed: db'') \<and>
   (\<exists>e s. pipeline_try db_failing_env example_embedder RECURSIVE 1000 100 initial_state
            = Some (Some e, s)) \<and>
   vector_storage_try example_env
     \<lparr>file_path = ''/data/a.txt'', file_type = ''txt'', file_collection_id = None\<rparr>
     [(0, Some [10, 1 / 2])] (initial_state\<lparr>status := PROCESSING\<rparr>) =
     (Some (OtherError ''connection refused''), initial_state\<lparr>status := PROCESSING\<rparr>) \<and>
   process_file_pipeline example_env example_embedder RECURSIVE 1000 100 initial_state =
     Some (None,
       \<lparr>status = PROCESSED, error_message = None, vector_ids = [],
        error_log = [''Failed to store embeddings in vector database: connection refused'']\<rparr>)"
proof -
  let ?env' = "example_env\<lparr>upsert_points := Inr True\<rparr>"
  let ?file = "\<lparr>file_path = ''/data/a.txt'', file_type = ''txt'', file_collection_id = None\<rparr>"
  let ?ex = "\<lparr>ex_success = True, ex_text = ''alpha beta'', ex_metadata = [], ex_error = []\<rparr>"
  let ?chunks = "[\<lparr>ctext = ''alpha beta'', cindex = 0, start_position = 0, end_position = 10,
                   cmetadata = []\<rparr>]"
  have same: "same_outside_vector_storage example_env ?env'"
    by (simp add: same_outside_vector_storage_def example_env_def)
  have up: "upsert_points example_env = Inl (OtherError ''connection refused'')"
    by (simp add: example_env_def)
  note t = vector_store_failure_keeps_processed
    [of example_env ?env' example_embedder RECURSIVE 1000 100 initial_state ?file ?ex ?chunks]
  have eq: "outcome (process_file_pipeline ?env' example_embedder RECURSIVE 1000 100 initial_state)
      = outcome (process_file_pipeline example_env example_embedder RECURSIVE 1000 100 initial_state)"
    by (rule mp [OF conjunct1 [OF t] same])
  have h: "get_file_by_id example_env = Inr (Some ?file) \<and>
    extract_text example_env (file_path ?file) (file_type ?file) = Inr ?ex \<and>
    ex_success ?ex \<and>
    ChunkingService_chunk_text (ex_text ?ex) RECURSIVE 1000 100 (Some (ex_metadata ?ex))
      = Some (Inr ?chunks) \<and>
    (\<forall>site. is_vector_site site \<or> raises example_env site = None)"
  proof (intro conjI)
    show "ChunkingService_chunk_text (ex_text ?ex) RECURSIVE 1000 100 (Some (ex_metadata ?ex))
      = Some (Inr ?chunks)"
      by code_simp
  qed (simp_all add: example_env_def)
  have "\<exists>st'. process_file_pipeline example_env example_embedder RECURSIVE 1000 100
        initial_state = Some (None, st') \<and> status st' = PROCESSED"
    by (rule mp [OF conjunct1 [OF conjunct2 [OF t]] h])
  then obtain st' where r: "process_file_pipeline example_env example_embedder RECURSIVE 1000 100
        initial_state = Some (None, st')" and p: "status st' = PROCESSED"
    by (elim exE conjE)
  have o1: "outcome (process_file_pipeline example_env example_embedder RECURSIVE 1000 100
        initial_state) = Some (None, PROCESSED, None)"
    by code_simp
  note t2 = vector_store_failure_keeps_processed
    [of db_failing_env db_failing_env example_embedder RECURSIVE 1000 100 initial_state ?file ?ex
        ?chunks None
        "\<lparr>status = FAILED, error_message = Some ''Processing pipeline failed: db'',
          vector_ids = [], error_log = []\<rparr>"]
  have f: "process_file_pipeline db_failing_env example_embedder RECURSIVE 1000 100 initial_state
      = Some (None, \<lparr>status = FAILED, error_message = Some ''Processing pipeline failed: db'',
          vector_ids = [], error_log = []\<rparr>)"
    by code_simp
  have nf: "\<not> (\<exists>file extraction.
         get_file_by_id db_failing_env = Inr (Some file) \<and>
         extract_text db_failing_env (file_path file) (file_type file) = Inr extraction \<and>
         \<not> ex_success extraction)"
    by (auto simp: db_failing_env_def example_env_def)
  have "(\<exists>file extraction.
         get_file_by_id db_failing_env = Inr (Some file) \<and>
         extract_text db_failing_env (file_path file) (file_type file) = Inr extraction \<and>
         \<not> ex_success extraction) \<or>
      (\<exists>e s. pipeline_try db_failing_env example_embedder RECURSIVE 1000 100 initial_state
            = Some (Some e, s))"
    by (rule mp [OF conjunct1 [OF conjunct2 [OF conjunct2 [OF t2]]]])
       (simp add: f, simp add: initial_state_def)
  with nf have raised: "\<exists>e s. pipeline_try db_failing_env example_embedder RECURSIVE 1000 100
            initial_state = Some (Some e, s)"
    by blast
  have o3: "outcome (process_file_pipeline db_failing_env example_embedder RECURSIVE 1000 100
        initial_state) = Some (None, FAILED, Some ''Processing pipeline failed: db'')"
    by (simp add: f outcome_def)
  let ?enriched = "[enrich example_embedder (hd ?chunks) (Some [10, 1 / 2]) True None]"
  let ?successful = "[(0 :: nat, Some [10, 1 / 2 :: rat])]"
  let ?st1 = "initial_state\<lparr>status := PROCESSING\<rparr>"
  have vt: "vector_storage_try example_env ?file ?successful ?st1 =
      (Some (OtherError ''connection refused''), ?st1)"
    by (rule vector_storage_try_upsert_raises) (simp_all add: example_env_def)
  have e1: "embed_chunks example_embedder ?chunks = Inr ?enriched"
    by code_simp
  have c1: "collect_successful example_env ?enriched [0 ..< length ?chunks] [] = Inr ?successful"
    by code_simp
  note t4 = vector_store_failure_keeps_processed
    [of example_env example_env example_embedder RECURSIVE 1000 100 initial_state ?file ?ex
        ?chunks _ _ ?enriched ?successful "OtherError ''connection refused''" ?st1]
  have h4: "get_file_by_id example_env = Inr (Some ?file) \<and>
    extract_text example_env (file_path ?file) (file_type ?file) = Inr ?ex \<and>
    ex_success ?ex \<and>
    ChunkingService_chunk_text (ex_text ?ex) RECURSIVE 1000 100 (Some (ex_metadata ?ex))
      = Some (Inr ?chunks) \<and>
    (\<forall>site. is_vector_site site \<or> raises example_env site = None) \<and>
    embed_chunks example_embedder ?chunks = Inr ?enriched \<and>
    collect_successful example_env ?enriched [0 ..< length ?chunks] [] = Inr ?successful \<and>
    ?successful \<noteq> [] \<and>
    vector_storage_try example_env ?file ?successful ?st1 =
      (Some (OtherError ''connection refused''), ?st1)"
    using h e1 c1 vt by (intro conjI) simp_all
  have "\<exists>st'. process_file_pipeline example_env example_embedder RECURSIVE 1000 100
          initial_state = Some (None, st') \<and>
        status st' = PROCESSED \<and> error_message st' = error_message initial_state \<and>
        error_log st' = error_log initial_state @
          [''Failed to store embeddings in vector database: ''
           @ str_of_error (OtherError ''connection refused'')]"
    by (rule mp [OF conjunct2 [OF conjunct2 [OF conjunct2 [OF t4]]] h4])
  then obtain fin where fin: "process_file_pipeline example_env example_embedder RECURSIVE 1000
        100 initial_state = Some (None, fin)"
    and fs: "status fin = PROCESSED" "error_message fin = None"
      "error_log fin = [''Failed to store embeddings in vector database: connection refused'']"
    by (auto simp: initial_state_def)
  have ids: "map_option (vector_ids \<circ> snd)
      (process_file_pipeline example_env example_embedder RECURSIVE 1000 100 initial_state)
      = Some []"
    by code_simp
  with fin have "vector_ids fin = []"
    by simp
  with fs have "fin = \<lparr>status = PROCESSED, error_message = None, vector_ids = [],
        error_log = [''Failed to store embeddings in vector database: connection refused'']\<rparr>"
    by (cases fin) simp
  with fin have logged: "process_file_pipeline example_env example_embedder RECURSIVE 1000 100
      initial_state =
     Some (None,
       \<lparr>status = PROCESSED, error_message = None, vector_ids = [],
        error_log = [''Failed to store embeddings in vector database: connection refused'']\<rparr>)"
    by simp
  from same up o1 eq o3 raised vt logged show ?thesis
    by (intro conjI) simp_all
qed

end
